theory Spec2Isabelle
  imports
    Main
    "HOL-Library.Monad_Syntax"
    "HOL-Library.Multiset"
    "HOL-Library.Char_ord"
    "HOL-Library.List_Lexorder"
begin

section \<open>JavaScript values as the trigger code sees them\<close>

text \<open>
  The Lambda payload is whatever the runtime deserialised from JSON: \<open>null\<close>, a boolean,
  a number, a string, an array or an object. A missing property reads as \<open>undefined\<close>.
  An object is an association list of its own properties in insertion order (the first
  binding of a key is the property). Numbers are integers here: the code under study
  looks at a number only through its truthiness and its conversion to a string, and the
  digits of that conversion are left to the built-in, which is part of the environment.

  A JavaScript exception is the result \<open>None\<close>: every function that can throw returns an
  \<open>option\<close>, and \<open>do\<close> blocks propagate the exception as the missing \<open>try\<close> does.
\<close>

datatype jsval =
    JUndefined
  | JNull
  | JBool bool
  | JNum int
  | JStr string
  | JArr "jsval list"
  | JObj "(string \<times> jsval) list"

text \<open>ToBoolean: the values that count as false in \<open>if (v)\<close>, \<open>a && b\<close>, \<open>a || b\<close>.\<close>

fun truthy :: "jsval \<Rightarrow> bool" where
  "truthy JUndefined = False"
| "truthy JNull = False"
| "truthy (JBool b) = b"
| "truthy (JNum n) = (n \<noteq> 0)"
| "truthy (JStr s) = (s \<noteq> [])"
| "truthy (JArr xs) = True"
| "truthy (JObj kvs) = True"

definition is_digit :: "char \<Rightarrow> bool" where
  "is_digit c = (c \<in> set ''0123456789'')"

text \<open>A property key that is a canonical array index (\<open>"0"\<close>, \<open>"17"\<close>, not \<open>"01"\<close>).\<close>

definition array_index :: "string \<Rightarrow> nat option" where
  "array_index k =
     (if k \<noteq> [] \<and> list_all is_digit k \<and> (k = ''0'' \<or> hd k \<noteq> CHR ''0'')
      then Some (foldl (\<lambda>n c. 10 * n + (of_char c - 48)) 0 k)
      else None)"

text \<open>
  Property read \<open>v.k\<close> or \<open>v[k]\<close>. Reading a property of \<open>null\<close> or \<open>undefined\<close> throws a
  TypeError; a missing property is \<open>undefined\<close>. The names read by the trigger code are
  data field names, none of which is inherited from a prototype.
\<close>

fun js_get :: "jsval \<Rightarrow> string \<Rightarrow> jsval option" where
  "js_get JUndefined k = None"
| "js_get JNull k = None"
| "js_get (JBool b) k = Some JUndefined"
| "js_get (JNum n) k = Some JUndefined"
| "js_get (JStr s) k =
     Some (if k = ''length'' then JNum (int (length s))
           else case array_index k of
                  Some i \<Rightarrow> if i < length s then JStr [s ! i] else JUndefined
                | None \<Rightarrow> JUndefined)"
| "js_get (JArr xs) k =
     Some (if k = ''length'' then JNum (int (length xs))
           else case array_index k of
                  Some i \<Rightarrow> if i < length xs then xs ! i else JUndefined
                | None \<Rightarrow> JUndefined)"
| "js_get (JObj kvs) k =
     Some (case map_of kvs k of Some v \<Rightarrow> v | None \<Rightarrow> JUndefined)"

text \<open>A chain of property reads, \<open>v.a.b.c\<close>; \<open>v[0]\<close> is the property \<open>"0"\<close>.\<close>

fun js_path :: "jsval \<Rightarrow> string list \<Rightarrow> jsval option" where
  "js_path v [] = Some v"
| "js_path v (k # ks) = do { w \<leftarrow> js_get v k; js_path w ks }"

text \<open>
  The operator \<open>k in v\<close>: a TypeError unless \<open>v\<close> is an object or an array. The keys
  probed by the classifier are data field names, none inherited from a prototype.
\<close>

fun js_in :: "string \<Rightarrow> jsval \<Rightarrow> bool option" where
  "js_in k (JObj kvs) = Some (k \<in> set (map fst kvs))"
| "js_in k (JArr xs) =
     Some (k = ''length'' \<or> (case array_index k of Some i \<Rightarrow> i < length xs | None \<Rightarrow> False))"
| "js_in k JUndefined = None"
| "js_in k JNull = None"
| "js_in k (JBool b) = None"
| "js_in k (JNum n) = None"
| "js_in k (JStr s) = None"

text \<open>\<open>a && b\<close> on two tests that may throw: \<open>b\<close> is evaluated only when \<open>a\<close> holds.\<close>

definition andM :: "bool option \<Rightarrow> bool option \<Rightarrow> bool option" where
  "andM a b = do { x \<leftarrow> a; if x then b else Some False }"

text \<open>\<open>String.prototype.split\<close> with a one-character separator.\<close>

fun split_char :: "char \<Rightarrow> string \<Rightarrow> string list" where
  "split_char c [] = [[]]"
| "split_char c (x # xs) =
     (if x = c then [] # split_char c xs
      else (case split_char c xs of
              [] \<Rightarrow> [[x]]
            | y # ys \<Rightarrow> (x # y) # ys))"

text \<open>
  The method call \<open>v.split(c)\<close>: only a string has the method; on \<open>null\<close> and
  \<open>undefined\<close> the property read throws, on any other value \<open>v.split\<close> is not a
  function, and the call throws a TypeError as well.
\<close>

fun js_split :: "jsval \<Rightarrow> char \<Rightarrow> string list option" where
  "js_split (JStr s) c = Some (split_char c s)"
| "js_split JUndefined c = None"
| "js_split JNull c = None"
| "js_split (JBool b) c = None"
| "js_split (JNum n) c = None"
| "js_split (JArr xs) c = None"
| "js_split (JObj kvs) c = None"

text \<open>
  \<open>Array.prototype.pop\<close> on the result of \<open>split\<close>, read for the returned element.
  \<open>split\<close> never returns the empty array (lemma \<open>split_char_not_Nil\<close>), so the last
  element exists.
\<close>

definition pop :: "string list \<Rightarrow> string" where
  "pop segs = last segs"

section \<open>The classifier: lines 354 to 387 of createFromEvent\<close>

text \<open>
  The tag of \<open>Records[0]\<close>: two consecutive \<open>if\<close> statements, so that the second
  assignment overwrites the first.
\<close>

definition recordsService :: "jsval \<Rightarrow> string option" where
  "recordsService event = do {
     r0 \<leftarrow> js_path event [''Records'', ''0''];
     hasUpper \<leftarrow> js_in ''EventSource'' r0;
     t1 \<leftarrow> (if hasUpper then do {
              es \<leftarrow> js_get r0 ''EventSource'';
              segs \<leftarrow> js_split es CHR '':'';
              Some (pop segs)
            } else Some ''json'');
     hasLower \<leftarrow> js_in ''eventSource'' r0;
     (if hasLower then do {
        es \<leftarrow> js_get r0 ''eventSource'';
        segs \<leftarrow> js_split es CHR '':'';
        Some (pop segs)
      } else Some t1)
   }"

text \<open>The \<open>else if\<close> chain that runs when the payload has no \<open>Records\<close> property.\<close>

definition otherService :: "jsval \<Rightarrow> string option" where
  "otherService event = do {
     isEvents \<leftarrow> andM (js_in ''source'' event)
                  (andM (js_in ''detail-type'' event) (js_in ''detail'' event));
     if isEvents then Some ''events'' else do {
     hasSource \<leftarrow> andM (js_in ''source'' event) (map_option truthy (js_get event ''source''));
     if hasSource then do {
       src \<leftarrow> js_get event ''source'';
       segs \<leftarrow> js_split src CHR ''.'';
       Some (pop segs)
     } else do {
     isElb \<leftarrow> andM (js_in ''requestContext'' event)
               (do { rc \<leftarrow> js_get event ''requestContext''; js_in ''elb'' rc });
     if isElb then Some ''elastic_load_balancer'' else do {
     hasMethod \<leftarrow> js_in ''httpMethod'' event;
     if hasMethod then Some ''api_gateway'' else do {
     isNoProxy \<leftarrow> andM (js_in ''context'' event)
                   (do { c \<leftarrow> js_get event ''context''; js_in ''http-method'' c });
     if isNoProxy then Some ''api_gateway_no_proxy'' else do {
     hasDynamo \<leftarrow> js_in ''dynamodb'' event;
     if hasDynamo then Some ''dynamodb'' else do {
     hasPool \<leftarrow> js_in ''userPoolId'' event;
     if hasPool then Some ''cognito'' else do {
     isHttp2 \<leftarrow> andM (js_in ''requestContext'' event)
                 (andM (do { rc \<leftarrow> js_get event ''requestContext''; js_in ''apiId'' rc })
                       (do { rc \<leftarrow> js_get event ''requestContext''; js_in ''http'' rc }));
     if isHttp2 then Some ''api_gateway_http2'' else do {
     isWebSocket \<leftarrow> andM (js_in ''requestContext'' event)
                     (do { rc \<leftarrow> js_get event ''requestContext''; js_in ''apiId'' rc });
     if isWebSocket then Some ''api_gateway_websocket'' else Some ''json''
     }}}}}}}}
   }"

definition triggerService :: "jsval \<Rightarrow> string option" where
  "triggerService event =
     (if truthy event then do {
        hasRecords \<leftarrow> js_in ''Records'' event;
        if hasRecords then recordsService event else otherService event
      } else Some ''json'')"

section \<open>Helpers of the extractors\<close>

fun join_comma :: "string list \<Rightarrow> string" where
  "join_comma [] = []"
| "join_comma [s] = s"
| "join_comma (s # t # rest) = s @ '','' @ join_comma (t # rest)"

text \<open>\<open>a || b\<close> on two reads that may throw: \<open>b\<close> is evaluated only when \<open>a\<close> is falsy.\<close>

definition orM :: "jsval option \<Rightarrow> jsval option \<Rightarrow> jsval option" where
  "orM a b = do { x \<leftarrow> a; if truthy x then Some x else b }"

text \<open>\<open>segs.slice(-n)\<close>, \<open>segs[i]\<close> on the array that \<open>split\<close> returned.\<close>

definition slice_last :: "nat \<Rightarrow> string list \<Rightarrow> string list" where
  "slice_last n segs = drop (length segs - n) segs"

definition seg_at :: "string list \<Rightarrow> nat \<Rightarrow> jsval" where
  "seg_at segs i = (if i < length segs then JStr (segs ! i) else JUndefined)"

text \<open>\<open>s.replace(pat, '')\<close> with a string pattern: the first occurrence is removed.\<close>

fun remove_first :: "string \<Rightarrow> string \<Rightarrow> string" where
  "remove_first pat [] = []"
| "remove_first pat (x # xs) =
     (if take (length pat) (x # xs) = pat then drop (length pat) (x # xs)
      else x # remove_first pat xs)"

fun js_remove :: "jsval \<Rightarrow> string \<Rightarrow> jsval option" where
  "js_remove (JStr s) pat = Some (JStr (remove_first pat s))"
| "js_remove JUndefined pat = None"
| "js_remove JNull pat = None"
| "js_remove (JBool b) pat = None"
| "js_remove (JNum n) pat = None"
| "js_remove (JArr xs) pat = None"
| "js_remove (JObj kvs) pat = None"

text \<open>
  \<open>v.map(f)\<close>: only an array has the method. The callback may throw, which ends the
  whole call.
\<close>

fun js_map :: "jsval \<Rightarrow> (jsval \<Rightarrow> jsval option) \<Rightarrow> jsval option" where
  "js_map (JArr xs) f = map_option JArr (those (map f xs))"
| "js_map JUndefined f = None"
| "js_map JNull f = None"
| "js_map (JBool b) f = None"
| "js_map (JNum n) f = None"
| "js_map (JStr s) f = None"
| "js_map (JObj kvs) f = None"

section \<open>What the module takes from outside\<close>

text \<open>
  The values and functions that the file reads from its environment during one call of
  \<open>createFromEvent\<close>: the result of \<open>uuid4()\<close> and of \<open>utils.createTimestamp()\<close>, the
  configuration switch \<open>config.getConfig().metadataOnly\<close>, the optional module \<open>AWS\<close>
  (when \<open>tryRequire\<close> found it: its \<open>DynamoDB.Converter.unmarshall\<close>, which may throw),
  the package \<open>md5\<close>, the built-ins \<open>JSON.stringify\<close> (on a value other than
  \<open>undefined\<close>), \<open>JSON.parse\<close> (on a string; \<open>None\<close> is its SyntaxError) and
  \<open>Number.prototype.toString\<close> (the digits of a number), and
  \<open>resourceUtils.getSNSTrigger\<close>. The marker that truncation appends and the
  configured payload cap are not in the file either.
\<close>

record runtime =
  uuid4 :: string
  createTimestamp :: int
  metadataOnly :: bool
  AWS :: "(jsval \<Rightarrow> jsval option) option"
  md5 :: "string \<Rightarrow> string"
  JSON_stringify :: "jsval \<Rightarrow> string"
  JSON_parse :: "string \<Rightarrow> jsval option"
  Number_toString :: "int \<Rightarrow> string"
  getSNSTrigger :: "jsval \<Rightarrow> jsval option"
  truncation_marker :: string
  max_payload :: nat

definition json_stringify :: "runtime \<Rightarrow> jsval \<Rightarrow> jsval" where
  "json_stringify rt v = (if v = JUndefined then JUndefined else JStr (JSON_stringify rt v))"

text \<open>
  ToString, as a template literal \<open>`${v}`\<close> applies it, and as \<open>JSON.parse\<close> applies it
  to its argument. A string is itself and a number is printed by the built-in. An array
  joins the conversions of its elements with commas, \<open>null\<close> and \<open>undefined\<close>
  elements counting as the empty string. An object is converted by its \<open>toString\<close>
  method: the one inherited from \<open>Object.prototype\<close> gives \<open>[object Object]\<close>, but
  an own property of that name hides it, and in a deserialised payload an own property
  is never a function; \<open>valueOf\<close>, own or inherited, gives no primitive value either,
  so the conversion throws a TypeError. The conversion of an array throws when the
  conversion of one of its elements does.
\<close>

fun js_to_string :: "runtime \<Rightarrow> jsval \<Rightarrow> string option" where
  "js_to_string rt JUndefined = Some ''undefined''"
| "js_to_string rt JNull = Some ''null''"
| "js_to_string rt (JBool b) = Some (if b then ''true'' else ''false'')"
| "js_to_string rt (JNum n) = Some (Number_toString rt n)"
| "js_to_string rt (JStr s) = Some s"
| "js_to_string rt (JArr xs) =
     map_option join_comma
       (those (map (\<lambda>x. if x = JNull \<or> x = JUndefined then Some [] else js_to_string rt x) xs))"
| "js_to_string rt (JObj kvs) =
     (if ''toString'' \<in> set (map fst kvs) then None else Some ''[object Object]'')"

text \<open>The template literal \<open>`${v}`\<close>.\<close>

definition template :: "runtime \<Rightarrow> jsval \<Rightarrow> jsval option" where
  "template rt v = map_option JStr (js_to_string rt v)"

section \<open>The trigger record\<close>

datatype ErrorCode = OK | ERROR

text \<open>
  Modelled from the spec: the generated protobuf classes \<open>Event\<close> and \<open>Resource\<close> of
  \<open>proto/event_pb.js\<close> are not among the sources. The record has the fields of the
  Trigger entity of section 3 of the specification; a setter stores the value it is
  given, whatever its type, and the two metadata channels are maps from keys to values.
\<close>

record trigger =
  trigger_id :: jsval
  start_time :: int
  duration :: int
  origin :: string
  error_code :: ErrorCode
  resource_type :: string
  resource_name :: jsval
  resource_operation :: jsval
  annotations :: "string \<rightharpoonup> jsval"
  payload :: "string \<rightharpoonup> jsval"

text \<open>\<open>new serverlessEvent.Event()\<close> with a \<open>new serverlessEvent.Resource()\<close>.\<close>

definition new_trigger :: trigger where
  "new_trigger =
     \<lparr> trigger_id = JStr [], start_time = 0, duration = 0, origin = [], error_code = OK,
       resource_type = [], resource_name = JStr [], resource_operation = JStr [],
       annotations = Map.empty, payload = Map.empty \<rparr>"

text \<open>
  Modelled from the spec: \<open>utils.truncateMessage\<close> is not among the sources. A string
  longer than the cap is cut to the cap and the marker is appended (sections 4.4 and 8);
  the specification says nothing about other values, which are returned as they are.
\<close>

definition truncateMessage :: "runtime \<Rightarrow> jsval \<Rightarrow> nat \<Rightarrow> jsval" where
  "truncateMessage rt message maxSize =
     (case message of
        JStr s \<Rightarrow> if maxSize < length s then JStr (take maxSize s @ truncation_marker rt)
                  else message
      | _ \<Rightarrow> message)"

text \<open>
  Modelled from the spec: \<open>eventInterface.addToMetadata\<close> is not among the sources.
  Section 4.4: the annotations are always attached, unchanged; the payload channel is
  dropped under metadata-only mode, and otherwise each payload string longer than the
  configured maximum is truncated before it is attached.
\<close>

definition addToMetadata ::
  "runtime \<Rightarrow> trigger \<Rightarrow> (string \<times> jsval) list \<Rightarrow> (string \<times> jsval) list \<Rightarrow> trigger" where
  "addToMetadata rt t dataToAdd payloadToAdd =
     t\<lparr> annotations := annotations t ++ map_of dataToAdd,
        payload := (if metadataOnly rt then payload t
                    else payload t ++
                         map_of (map (\<lambda>kv. (fst kv, truncateMessage rt (snd kv) (max_payload rt)))
                                     payloadToAdd)) \<rparr>"

text \<open>\<open>fillCommonFields\<close>, lines 22 to 28.\<close>

definition fillCommonFields :: "runtime \<Rightarrow> trigger \<Rightarrow> string \<Rightarrow> trigger" where
  "fillCommonFields rt t resourceType =
     t\<lparr> start_time := createTimestamp rt, duration := 0, origin := ''trigger'',
        resource_type := resourceType, error_code := OK \<rparr>"

section \<open>The extractors\<close>

text \<open>
  Each extractor fills the trigger it is given. An exception anywhere in its body leaves
  the function at once, so the model reads every value first and builds the trigger at
  the end; the reads are in the order of the source.
\<close>

text \<open>\<open>createJSONTrigger\<close>, lines 36 to 44.\<close>

definition createJSONTrigger :: "runtime \<Rightarrow> jsval \<Rightarrow> trigger \<Rightarrow> jsval \<Rightarrow> trigger option" where
  "createJSONTrigger rt event trigger context = do {
     functionName \<leftarrow> js_get context ''functionName'';
     name \<leftarrow> js_to_string rt functionName;
     Some (addToMetadata rt
             (trigger\<lparr> trigger_id := JStr (''trigger-'' @ uuid4 rt),
                       resource_name := JStr (''trigger-'' @ name),
                       resource_operation := JStr ''Event'' \<rparr>)
             []
             [(''data'', event)])
   }"

text \<open>\<open>createS3Trigger\<close>, lines 51 to 65.\<close>

definition createS3Trigger :: "runtime \<Rightarrow> jsval \<Rightarrow> trigger \<Rightarrow> trigger option" where
  "createS3Trigger rt event trigger = do {
     requestId \<leftarrow> js_path event [''Records'', ''0'', ''responseElements'', ''x-amz-request-id''];
     bucketName \<leftarrow> js_path event [''Records'', ''0'', ''s3'', ''bucket'', ''name''];
     eventName \<leftarrow> js_path event [''Records'', ''0'', ''eventName''];
     awsRegion \<leftarrow> js_path event [''Records'', ''0'', ''awsRegion''];
     region \<leftarrow> template rt awsRegion;
     requestParameters \<leftarrow> js_path event [''Records'', ''0'', ''requestParameters''];
     userIdentity \<leftarrow> js_path event [''Records'', ''0'', ''userIdentity''];
     objectKey \<leftarrow> js_path event [''Records'', ''0'', ''s3'', ''object'', ''key''];
     object_key \<leftarrow> template rt objectKey;
     objectSize \<leftarrow> js_path event [''Records'', ''0'', ''s3'', ''object'', ''size''];
     object_size \<leftarrow> template rt objectSize;
     objectETag \<leftarrow> js_path event [''Records'', ''0'', ''s3'', ''object'', ''eTag''];
     object_etag \<leftarrow> template rt objectETag;
     requestId2 \<leftarrow> js_path event [''Records'', ''0'', ''responseElements'', ''x-amz-request-id''];
     request_id \<leftarrow> template rt requestId2;
     Some (addToMetadata rt
             (trigger\<lparr> trigger_id := requestId,
                       resource_name := bucketName,
                       resource_operation := eventName \<rparr>)
             [(''region'', region),
              (''request_parameters'', json_stringify rt requestParameters),
              (''user_identity'', json_stringify rt userIdentity),
              (''object_key'', object_key),
              (''object_size'', object_size),
              (''object_etag'', object_etag),
              (''x-amz-request-id'', request_id)]
             [])
   }"

text \<open>\<open>createKinesisTrigger\<close>, lines 72 to 84.\<close>

definition createKinesisTrigger :: "runtime \<Rightarrow> jsval \<Rightarrow> trigger \<Rightarrow> trigger option" where
  "createKinesisTrigger rt event trigger = do {
     eventID \<leftarrow> js_path event [''Records'', ''0'', ''eventID''];
     eventSourceARN \<leftarrow> js_path event [''Records'', ''0'', ''eventSourceARN''];
     segs \<leftarrow> js_split eventSourceARN CHR ''/'';
     eventName \<leftarrow> js_path event [''Records'', ''0'', ''eventName''];
     operation \<leftarrow> js_remove eventName ''aws:kinesis:'';
     awsRegion \<leftarrow> js_path event [''Records'', ''0'', ''awsRegion''];
     invokeIdentityArn \<leftarrow> js_path event [''Records'', ''0'', ''invokeIdentityArn''];
     sequenceNumber \<leftarrow> js_path event [''Records'', ''0'', ''kinesis'', ''sequenceNumber''];
     partitionKey \<leftarrow> js_path event [''Records'', ''0'', ''kinesis'', ''partitionKey''];
     count \<leftarrow> js_path event [''Records'', ''length''];
     Some (addToMetadata rt
             (trigger\<lparr> trigger_id := eventID,
                       resource_name := JStr (pop segs),
                       resource_operation := operation \<rparr>)
             [(''region'', awsRegion),
              (''invoke_identity'', invokeIdentityArn),
              (''sequence_number'', sequenceNumber),
              (''partition_key'', partitionKey),
              (''total_record_count'', count)]
             [])
   }"

text \<open>\<open>createSNSTrigger\<close>, lines 91 to 102.\<close>

definition createSNSTrigger :: "runtime \<Rightarrow> jsval \<Rightarrow> trigger \<Rightarrow> trigger option" where
  "createSNSTrigger rt event trigger = do {
     messageId \<leftarrow> js_path event [''Records'', ''0'', ''Sns'', ''MessageId''];
     subscriptionArn \<leftarrow> js_path event [''Records'', ''0'', ''EventSubscriptionArn''];
     segs \<leftarrow> js_split subscriptionArn CHR '':'';
     snsType \<leftarrow> js_path event [''Records'', ''0'', ''Sns'', ''Type''];
     subject \<leftarrow> js_path event [''Records'', ''0'', ''Sns'', ''Subject''];
     message \<leftarrow> js_path event [''Records'', ''0'', ''Sns'', ''Message''];
     messageAttributes \<leftarrow> js_path event [''Records'', ''0'', ''Sns'', ''MessageAttributes''];
     Some (addToMetadata rt
             (trigger\<lparr> trigger_id := messageId,
                       resource_name := seg_at (slice_last 2 segs) 0,
                       resource_operation := snsType \<rparr>)
             [(''Notification Subject'', subject)]
             [(''Notification Message'', message),
              (''Notification Message Attributes'', messageAttributes)])
   }"

text \<open>\<open>createSQSTrigger\<close>, lines 104 to 147, in its four parts.\<close>

definition MAX_SQS_BODY_LENGTH :: nat where
  "MAX_SQS_BODY_LENGTH = 1 * 1024"

text \<open>The callback of \<open>event.Records.map\<close>, lines 117 to 128: one entry of the record list.\<close>

definition sqsRecord :: "runtime \<Rightarrow> jsval \<Rightarrow> jsval option" where
  "sqsRecord rt r = do {
     md5OfBody \<leftarrow> js_get r ''md5OfBody'';
     messageId \<leftarrow> js_get r ''messageId'';
     if \<not> metadataOnly rt then do {
       body \<leftarrow> orM (js_get r ''body'') (Some (JStr ''{}''));
       attributes \<leftarrow> js_get r ''attributes'';
       messageAttributes \<leftarrow> js_get r ''messageAttributes'';
       Some (JObj [(''MD5 Of Message Body'', md5OfBody),
                   (''Message ID'', messageId),
                   (''Message Body'', truncateMessage rt body MAX_SQS_BODY_LENGTH),
                   (''Attributes'', attributes),
                   (''Message Attributes'', messageAttributes)])
     } else
       Some (JObj [(''MD5 Of Message Body'', md5OfBody),
                   (''Message ID'', messageId)])
   }"

text \<open>
  The body of the \<open>try\<close> block, lines 132 to 138. \<open>JSON.parse\<close> converts its argument
  to a string first, which may throw, and then parses the string, which may throw.
\<close>

definition sqsStepsDict :: "runtime \<Rightarrow> trigger \<Rightarrow> jsval \<Rightarrow> trigger option" where
  "sqsStepsDict rt trigger sqsMessageBody = do {
     bodyText \<leftarrow> js_to_string rt sqsMessageBody;
     messageBody \<leftarrow> JSON_parse rt bodyText;
     input \<leftarrow> js_get messageBody ''input'';
     hasSteps \<leftarrow> (if truthy input then map_option truthy (js_get input ''Epsagon'')
                  else Some False);
     if hasSteps then do {
       stepsDict \<leftarrow> js_path messageBody [''input'', ''Epsagon''];
       Some (addToMetadata rt trigger [(''steps_dict'', stepsDict)] [])
     } else Some trigger
   }"

text \<open>
  \<open>try { ... } catch (err) { utils.debugLog(`... ${sqsMessageBody}`) }\<close>, lines 131 to
  141: whatever the block throws is caught, and the trigger is left as it was before the
  block. The handler builds the message it logs with a template literal on the body, at
  line 140, and that is outside the \<open>try\<close>: when the body has no conversion to a string
  the handler throws in its turn, and this exception leaves the extractor.
  \<open>utils.debugLog\<close> itself is taken to return.
\<close>

definition sqsTryStepsDict :: "runtime \<Rightarrow> trigger \<Rightarrow> jsval \<Rightarrow> trigger option" where
  "sqsTryStepsDict rt trigger sqsMessageBody =
     (case sqsStepsDict rt trigger sqsMessageBody of
        Some trigger' \<Rightarrow> Some trigger'
      | None \<Rightarrow> do {
          message \<leftarrow> template rt sqsMessageBody;
          Some trigger
        })"

definition createSQSTrigger :: "runtime \<Rightarrow> jsval \<Rightarrow> trigger \<Rightarrow> trigger option" where
  "createSQSTrigger rt event trigger = do {
     messageId \<leftarrow> js_path event [''Records'', ''0'', ''messageId''];
     eventSourceARN \<leftarrow> js_path event [''Records'', ''0'', ''eventSourceARN''];
     segs \<leftarrow> js_split eventSourceARN CHR '':'';
     sqsMessageBody \<leftarrow> orM (js_path event [''Records'', ''0'', ''body'']) (Some (JStr ''{}''));
     records \<leftarrow> js_get event ''Records'';
     recordList \<leftarrow> js_map records (sqsRecord rt);
     count \<leftarrow> js_path event [''Records'', ''length''];
     let trigger1 = addToMetadata rt
             (trigger\<lparr> trigger_id := messageId,
                       resource_name := seg_at (slice_last 1 segs) 0,
                       resource_operation := JStr ''ReceiveMessage'' \<rparr>)
             [(''record'', recordList), (''total_record_count'', count)]
             [];
     trigger2 \<leftarrow> sqsTryStepsDict rt trigger1 sqsMessageBody;
     records2 \<leftarrow> js_get event ''Records'';
     snsData \<leftarrow> getSNSTrigger rt records2;
     Some (if snsData \<noteq> JNull \<and> snsData \<noteq> JUndefined
           then addToMetadata rt trigger2 [(''SNS Trigger'', snsData)] []
           else trigger2)
   }"

text \<open>\<open>createAPIGatewayTrigger\<close>, lines 154 to 169.\<close>

definition createAPIGatewayTrigger :: "runtime \<Rightarrow> jsval \<Rightarrow> trigger \<Rightarrow> trigger option" where
  "createAPIGatewayTrigger rt event trigger = do {
     requestId \<leftarrow> js_path event [''requestContext'', ''requestId''];
     name \<leftarrow> orM (js_path event [''headers'', ''Host''])
                (js_path event [''requestContext'', ''apiId'']);
     httpMethod \<leftarrow> js_get event ''httpMethod'';
     stage \<leftarrow> js_path event [''requestContext'', ''stage''];
     queryStringParameters \<leftarrow> js_get event ''queryStringParameters'';
     pathParameters \<leftarrow> js_get event ''pathParameters'';
     resource \<leftarrow> js_get event ''resource'';
     body \<leftarrow> js_get event ''body'';
     headers \<leftarrow> js_get event ''headers'';
     requestContext \<leftarrow> js_get event ''requestContext'';
     Some (addToMetadata rt
             (trigger\<lparr> trigger_id := requestId,
                       resource_name := name,
                       resource_operation := httpMethod \<rparr>)
             [(''stage'', stage),
              (''query_string_parameters'', queryStringParameters),
              (''path_parameters'', pathParameters),
              (''path'', resource)]
             [(''body'', body), (''headers'', headers), (''requestContext'', requestContext)])
   }"

text \<open>\<open>createAPIGatewayHTTPV2Trigger\<close>, lines 176 to 192.\<close>

definition createAPIGatewayHTTPV2Trigger :: "runtime \<Rightarrow> jsval \<Rightarrow> trigger \<Rightarrow> trigger option" where
  "createAPIGatewayHTTPV2Trigger rt event trigger = do {
     requestId \<leftarrow> js_path event [''requestContext'', ''requestId''];
     name \<leftarrow> orM (js_path event [''headers'', ''Host''])
                (js_path event [''requestContext'', ''domainName'']);
     httpMethod \<leftarrow> js_path event [''requestContext'', ''http'', ''method''];
     stage \<leftarrow> js_path event [''requestContext'', ''stage''];
     queryStringParameters \<leftarrow> js_get event ''queryStringParameters'';
     pathParameters \<leftarrow> js_get event ''pathParameters'';
     path \<leftarrow> js_path event [''requestContext'', ''http'', ''path''];
     apiId \<leftarrow> js_path event [''requestContext'', ''apiId''];
     body \<leftarrow> js_get event ''body'';
     headers \<leftarrow> js_get event ''headers'';
     requestContext \<leftarrow> js_get event ''requestContext'';
     Some (addToMetadata rt
             (trigger\<lparr> trigger_id := requestId,
                       resource_name := name,
                       resource_operation := httpMethod \<rparr>)
             [(''stage'', stage),
              (''query_string_parameters'', queryStringParameters),
              (''path_parameters'', pathParameters),
              (''path'', path),
              (''aws.api_gateway.api_id'', apiId)]
             [(''body'', body), (''headers'', headers), (''requestContext'', requestContext)])
   }"

text \<open>\<open>createNoProxyAPIGatewayTrigger\<close>, lines 199 to 213.\<close>

definition createNoProxyAPIGatewayTrigger :: "runtime \<Rightarrow> jsval \<Rightarrow> trigger \<Rightarrow> trigger option" where
  "createNoProxyAPIGatewayTrigger rt event trigger = do {
     requestId \<leftarrow> js_path event [''context'', ''request-id''];
     name \<leftarrow> orM (js_path event [''params'', ''header'', ''Host''])
                (js_path event [''context'', ''api-id'']);
     httpMethod \<leftarrow> js_path event [''context'', ''http-method''];
     stage \<leftarrow> js_path event [''context'', ''stage''];
     querystring \<leftarrow> js_path event [''params'', ''querystring''];
     path \<leftarrow> js_path event [''params'', ''path''];
     resourcePath \<leftarrow> js_path event [''context'', ''resource-path''];
     body \<leftarrow> js_get event ''body-json'';
     header \<leftarrow> js_path event [''params'', ''header''];
     Some (addToMetadata rt
             (trigger\<lparr> trigger_id := requestId,
                       resource_name := name,
                       resource_operation := httpMethod \<rparr>)
             [(''stage'', stage),
              (''query_string_parameters'', querystring),
              (''path_parameters'', path),
              (''path'', resourcePath)]
             [(''body'', body), (''headers'', header)])
   }"

text \<open>\<open>createWebSocketTrigger\<close>, lines 220 to 235.\<close>

definition createWebSocketTrigger :: "runtime \<Rightarrow> jsval \<Rightarrow> trigger \<Rightarrow> trigger option" where
  "createWebSocketTrigger rt event trigger = do {
     requestId \<leftarrow> js_path event [''requestContext'', ''requestId''];
     domainName \<leftarrow> js_path event [''requestContext'', ''domainName''];
     eventType \<leftarrow> orM (js_path event [''requestContext'', ''eventType'']) (Some (JStr ''CONNECT''));
     stage \<leftarrow> js_path event [''requestContext'', ''stage''];
     routeKey \<leftarrow> js_path event [''requestContext'', ''routeKey''];
     messageId \<leftarrow> js_path event [''requestContext'', ''messageId''];
     connectionId \<leftarrow> js_path event [''requestContext'', ''connectionId''];
     requestId2 \<leftarrow> js_path event [''requestContext'', ''requestId''];
     messageDirection \<leftarrow> js_path event [''requestContext'', ''messageDirection''];
     body \<leftarrow> js_get event ''body'';
     Some (addToMetadata rt
             (trigger\<lparr> trigger_id := requestId,
                       resource_name := domainName,
                       resource_operation := eventType \<rparr>)
             [(''stage'', stage),
              (''route_key'', routeKey),
              (''message_id'', messageId),
              (''connection_id'', connectionId),
              (''request_id'', requestId2),
              (''message_direction'', messageDirection)]
             [(''body'', body)])
   }"

text \<open>
  \<open>createEventsTrigger\<close>, lines 242 to 256. \<open>typeof v === 'string'\<close> holds of the
  strings only.
\<close>

definition createEventsTrigger :: "runtime \<Rightarrow> jsval \<Rightarrow> trigger \<Rightarrow> trigger option" where
  "createEventsTrigger rt event trigger = do {
     eventId \<leftarrow> js_get event ''id'';
     resource0 \<leftarrow> js_path event [''resources'', ''0''];
     name \<leftarrow> (case resource0 of
                JStr s \<Rightarrow> do {
                  resource0' \<leftarrow> js_path event [''resources'', ''0''];
                  segs \<leftarrow> js_split resource0' CHR ''/'';
                  Some (JStr (pop segs))
                }
              | _ \<Rightarrow> Some (JStr ''CloudWatch Events''));
     detailType \<leftarrow> js_get event ''detail-type'';
     region \<leftarrow> js_get event ''region'';
     detail \<leftarrow> js_get event ''detail'';
     account \<leftarrow> js_get event ''account'';
     Some (addToMetadata rt
             (trigger\<lparr> trigger_id := eventId,
                       resource_name := name,
                       resource_operation := detailType \<rparr>)
             [(''region'', region),
              (''detail'', json_stringify rt detail),
              (''account'', account)]
             [])
   }"

text \<open>
  Modelled from the spec: the package \<open>json.sortify\<close> is not among the sources.
  Section 4.3: the decoded object is brought to a deterministic JSON form with its keys
  in a stable order. \<open>canon\<close> sorts the keys of every object, at every depth, and
  \<open>JSON_sortify\<close> serialises the result; like \<open>JSON.stringify\<close> it returns
  \<open>undefined\<close> for \<open>undefined\<close>.
\<close>

fun canon :: "jsval \<Rightarrow> jsval" where
  "canon (JObj kvs) = JObj (sort_key fst (map (\<lambda>kv. (fst kv, canon (snd kv))) kvs))"
| "canon (JArr xs) = JArr (map canon xs)"
| "canon JUndefined = JUndefined"
| "canon JNull = JNull"
| "canon (JBool b) = JBool b"
| "canon (JNum n) = JNum n"
| "canon (JStr s) = JStr s"

definition JSON_sortify :: "runtime \<Rightarrow> jsval \<Rightarrow> jsval" where
  "JSON_sortify rt v = json_stringify rt (canon v)"

text \<open>
  The call \<open>md5(JSON.sortify(item))\<close>: the package hashes a string and throws on
  \<open>undefined\<close>, and \<open>JSON.sortify\<close> returns nothing else.
\<close>

definition md5_call :: "runtime \<Rightarrow> jsval \<Rightarrow> jsval option" where
  "md5_call rt v = (case v of JStr s \<Rightarrow> Some (JStr (md5 rt s)) | _ \<Rightarrow> None)"

text \<open>The computation of \<open>itemHash\<close>, lines 266 to 275.\<close>

definition itemHash :: "runtime \<Rightarrow> jsval \<Rightarrow> jsval option" where
  "itemHash rt record =
     (case AWS rt of
        None \<Rightarrow> Some (JStr [])
      | Some unmarshall \<Rightarrow> do {
          eventName \<leftarrow> js_get record ''eventName'';
          item \<leftarrow> (if eventName = JStr ''REMOVE''
                   then do { keys \<leftarrow> js_path record [''dynamodb'', ''Keys'']; unmarshall keys }
                   else do { newImage \<leftarrow> js_path record [''dynamodb'', ''NewImage''];
                             unmarshall newImage });
          md5_call rt (JSON_sortify rt item)
        })"

text \<open>\<open>createDynamoDBTrigger\<close>, lines 263 to 287.\<close>

definition createDynamoDBTrigger :: "runtime \<Rightarrow> jsval \<Rightarrow> trigger \<Rightarrow> trigger option" where
  "createDynamoDBTrigger rt event trigger = do {
     record \<leftarrow> js_path event [''Records'', ''0''];
     hash \<leftarrow> itemHash rt record;
     eventID \<leftarrow> js_get record ''eventID'';
     eventSourceARN \<leftarrow> js_get record ''eventSourceARN'';
     segs \<leftarrow> js_split eventSourceARN CHR ''/'';
     eventName \<leftarrow> js_get record ''eventName'';
     awsRegion \<leftarrow> js_get record ''awsRegion'';
     sequenceNumber \<leftarrow> js_path record [''dynamodb'', ''SequenceNumber''];
     count \<leftarrow> js_path event [''Records'', ''length''];
     records \<leftarrow> js_get event ''Records'';
     Some (addToMetadata rt
             (trigger\<lparr> trigger_id := eventID,
                       resource_name := seg_at segs 1,
                       resource_operation := eventName \<rparr>)
             [(''region'', awsRegion),
              (''sequence_number'', sequenceNumber),
              (''item_hash'', hash),
              (''total_record_count'', count)]
             [(''data'', json_stringify rt records)])
   }"

text \<open>\<open>createElbTrigger\<close>, lines 294 to 307.\<close>

definition createElbTrigger :: "runtime \<Rightarrow> jsval \<Rightarrow> trigger \<Rightarrow> trigger option" where
  "createElbTrigger rt event trigger = do {
     host \<leftarrow> js_path event [''headers'', ''host''];
     httpMethod \<leftarrow> js_get event ''httpMethod'';
     queryStringParameters \<leftarrow> js_get event ''queryStringParameters'';
     targetGroupArn \<leftarrow> js_path event [''requestContext'', ''elb'', ''targetGroupArn''];
     path \<leftarrow> js_get event ''path'';
     body \<leftarrow> js_get event ''body'';
     headers \<leftarrow> js_get event ''headers'';
     Some (addToMetadata rt
             (trigger\<lparr> trigger_id := JStr (''elb-'' @ uuid4 rt),
                       resource_name := host,
                       resource_operation := httpMethod \<rparr>)
             [(''query_string_parameters'', json_stringify rt queryStringParameters),
              (''target_group_arn'', targetGroupArn),
              (''path'', path)]
             [(''body'', json_stringify rt body), (''headers'', json_stringify rt headers)])
   }"

text \<open>\<open>createCognitoTrigger\<close>, lines 315 to 328.\<close>

definition createCognitoTrigger :: "runtime \<Rightarrow> jsval \<Rightarrow> trigger \<Rightarrow> trigger option" where
  "createCognitoTrigger rt event trigger = do {
     userPoolId \<leftarrow> js_get event ''userPoolId'';
     triggerSource \<leftarrow> js_get event ''triggerSource'';
     userName \<leftarrow> js_get event ''userName'';
     region \<leftarrow> js_get event ''region'';
     callerContext \<leftarrow> js_get event ''callerContext'';
     request \<leftarrow> js_get event ''request'';
     response \<leftarrow> js_get event ''response'';
     Some (addToMetadata rt
             (trigger\<lparr> trigger_id := JStr (''cognito-'' @ uuid4 rt),
                       resource_name := userPoolId,
                       resource_operation := triggerSource \<rparr>)
             [(''username'', userName), (''region'', region)]
             [(''caller_context'', callerContext),
              (''request'', request),
              (''response'', response)])
   }"

section \<open>The registry and createFromEvent\<close>

type_synonym factory = "runtime \<Rightarrow> jsval \<Rightarrow> trigger \<Rightarrow> jsval \<Rightarrow> trigger option"

text \<open>
  \<open>resourceTypeToFactoryMap\<close>, lines 330 to 344: the own properties of the object
  literal. Every extractor is called with \<open>(event, trigger, context)\<close>; all but
  \<open>createJSONTrigger\<close> declare two parameters and ignore the third.
\<close>

definition resourceTypeToFactoryMap :: "(string \<times> factory) list" where
  "resourceTypeToFactoryMap =
     [(''s3'', \<lambda>rt event trigger context. createS3Trigger rt event trigger),
      (''json'', createJSONTrigger),
      (''kinesis'', \<lambda>rt event trigger context. createKinesisTrigger rt event trigger),
      (''events'', \<lambda>rt event trigger context. createEventsTrigger rt event trigger),
      (''sns'', \<lambda>rt event trigger context. createSNSTrigger rt event trigger),
      (''sqs'', \<lambda>rt event trigger context. createSQSTrigger rt event trigger),
      (''api_gateway'', \<lambda>rt event trigger context. createAPIGatewayTrigger rt event trigger),
      (''api_gateway_no_proxy'',
         \<lambda>rt event trigger context. createNoProxyAPIGatewayTrigger rt event trigger),
      (''api_gateway_websocket'',
         \<lambda>rt event trigger context. createWebSocketTrigger rt event trigger),
      (''api_gateway_http2'',
         \<lambda>rt event trigger context. createAPIGatewayHTTPV2Trigger rt event trigger),
      (''dynamodb'', \<lambda>rt event trigger context. createDynamoDBTrigger rt event trigger),
      (''elastic_load_balancer'', \<lambda>rt event trigger context. createElbTrigger rt event trigger),
      (''cognito'', \<lambda>rt event trigger context. createCognitoTrigger rt event trigger)]"

text \<open>
  The object literal inherits from \<open>Object.prototype\<close>, so the lookup
  \<open>resourceTypeToFactoryMap[triggerService]\<close> with a name that is no own property
  finds the inherited member of that name. Of the twelve members of
  \<open>Object.prototype\<close>, these nine are functions that can return normally when called
  with \<open>(event, trigger, context)\<close>, and they leave the trigger untouched;
  \<open>__defineGetter__\<close> and \<open>__defineSetter__\<close> throw because the trigger is not
  callable, and \<open>__proto__\<close> is an object, not a function. Four of the nine take
  their first argument for a property key and convert it to a string, which throws when
  the payload has no conversion.
\<close>

definition inheritedCallable :: "string list" where
  "inheritedCallable =
     [''constructor'', ''hasOwnProperty'', ''isPrototypeOf'', ''propertyIsEnumerable'',
      ''toString'', ''toLocaleString'', ''valueOf'', ''__lookupGetter__'', ''__lookupSetter__'']"

definition keyedCallable :: "string list" where
  "keyedCallable =
     [''hasOwnProperty'', ''propertyIsEnumerable'', ''__lookupGetter__'', ''__lookupSetter__'']"

text \<open>
  Line 392, \<open>resourceTypeToFactoryMap[triggerService](event, trigger, context)\<close>:
  calling \<open>undefined\<close> throws a TypeError.
\<close>

definition callFactory :: "string \<Rightarrow> factory" where
  "callFactory tag rt event trigger context =
     (case map_of resourceTypeToFactoryMap tag of
        Some create \<Rightarrow> create rt event trigger context
      | None \<Rightarrow>
          if tag \<in> set inheritedCallable
          then (if tag \<in> set keyedCallable
                then do { key \<leftarrow> js_to_string rt event; Some trigger }
                else Some trigger)
          else None)"

text \<open>\<open>createFromEvent\<close>, lines 353 to 395.\<close>

definition createFromEvent :: "runtime \<Rightarrow> jsval \<Rightarrow> jsval \<Rightarrow> trigger option" where
  "createFromEvent rt event context = do {
     tag \<leftarrow> triggerService event;
     trigger \<leftarrow> callFactory tag rt event new_trigger context;
     Some (fillCommonFields rt trigger tag)
   }"

section \<open>Notions used in the statements\<close>

text \<open>
  Total readings of a payload, for stating properties: \<open>has v k\<close> is the test
  \<open>k in v\<close> where it does not throw, \<open>sub v k\<close> is the property \<open>v.k\<close> where the read
  does not throw and \<open>undefined\<close> otherwise.
\<close>

fun is_object :: "jsval \<Rightarrow> bool" where
  "is_object (JObj kvs) = True"
| "is_object (JArr xs) = True"
| "is_object v = False"

fun is_string :: "jsval \<Rightarrow> bool" where
  "is_string (JStr s) = True"
| "is_string v = False"

text \<open>The characters of a string value.\<close>

fun str_of :: "jsval \<Rightarrow> string" where
  "str_of (JStr s) = s"
| "str_of v = []"

text \<open>
  A value that has a conversion to a string: it is not an object with an own
  \<open>toString\<close> property, nor an array with an element that has no conversion (lemma
  \<open>js_to_string_Some_iff\<close>). Every string, number and boolean is one, and so are
  \<open>null\<close> and \<open>undefined\<close>.
\<close>

fun printable :: "jsval \<Rightarrow> bool" where
  "printable (JObj kvs) = (''toString'' \<notin> set (map fst kvs))"
| "printable (JArr xs) = list_all printable xs"
| "printable v = True"

definition has :: "jsval \<Rightarrow> string \<Rightarrow> bool" where
  "has v k = (js_in k v = Some True)"

definition sub :: "jsval \<Rightarrow> string \<Rightarrow> jsval" where
  "sub v k = (case js_get v k of Some w \<Rightarrow> w | None \<Rightarrow> JUndefined)"

text \<open>\<open>Records[0]\<close>, and the substring after the last separator of a string.\<close>

definition first_record :: "jsval \<Rightarrow> jsval" where
  "first_record event = sub (sub event ''Records'') ''0''"

definition last_segment :: "char \<Rightarrow> jsval \<Rightarrow> string" where
  "last_segment c v = (case v of JStr s \<Rightarrow> pop (split_char c s) | _ \<Rightarrow> [])"

text \<open>The closed enumeration of section 4.1 of the specification.\<close>

definition enumeration :: "string list" where
  "enumeration =
     [''json'', ''s3'', ''kinesis'', ''events'', ''sns'', ''sqs'', ''api_gateway'',
      ''api_gateway_no_proxy'', ''api_gateway_websocket'', ''api_gateway_http2'',
      ''dynamodb'', ''elastic_load_balancer'', ''cognito'']"

text \<open>
  An ordered chain of predicates with the tag each one gives, evaluated top-down: the
  first predicate that matches decides, and \<open>json\<close> is the default.
\<close>

type_synonym chain = "((jsval \<Rightarrow> bool) \<times> (jsval \<Rightarrow> string)) list"

fun first_match :: "chain \<Rightarrow> jsval \<Rightarrow> string" where
  "first_match [] event = ''json''"
| "first_match ((p, tag) # rest) event = (if p event then tag event else first_match rest event)"

text \<open>Predicates 5 to 12 of section 4.1.\<close>

definition later_predicates :: chain where
  "later_predicates =
     [(\<lambda>e. has (sub e ''requestContext'') ''elb'', \<lambda>e. ''elastic_load_balancer''),
      (\<lambda>e. has e ''httpMethod'', \<lambda>e. ''api_gateway''),
      (\<lambda>e. has (sub e ''context'') ''http-method'', \<lambda>e. ''api_gateway_no_proxy''),
      (\<lambda>e. has e ''dynamodb'', \<lambda>e. ''dynamodb''),
      (\<lambda>e. has e ''userPoolId'', \<lambda>e. ''cognito''),
      (\<lambda>e. has (sub e ''requestContext'') ''apiId'' \<and> has (sub e ''requestContext'') ''http'',
       \<lambda>e. ''api_gateway_http2''),
      (\<lambda>e. has (sub e ''requestContext'') ''apiId'', \<lambda>e. ''api_gateway_websocket''),
      (\<lambda>e. True, \<lambda>e. ''json'')]"

text \<open>The chain as section 4.1 words it, predicates 1 to 12 in that order.\<close>

definition spec_chain :: chain where
  "spec_chain =
     [(\<lambda>e. has e ''Records'' \<and> has (first_record e) ''EventSource'',
       \<lambda>e. last_segment CHR '':'' (sub (first_record e) ''EventSource'')),
      (\<lambda>e. has e ''Records'' \<and> has (first_record e) ''eventSource'',
       \<lambda>e. last_segment CHR '':'' (sub (first_record e) ''eventSource'')),
      (\<lambda>e. has e ''source'' \<and> has e ''detail-type'' \<and> has e ''detail'', \<lambda>e. ''events''),
      (\<lambda>e. has e ''source'' \<and> \<not> has e ''detail-type'',
       \<lambda>e. last_segment CHR ''.'' (sub e ''source''))]
     @ later_predicates"

text \<open>
  The chain of section 4.1 as amended, which is the one the code follows (theorem of
  C4 below). It differs from section 4.1 in three places:
  \<open>eventSource\<close> is looked at before \<open>EventSource\<close>; a payload with a \<open>Records\<close>
  property whose first element has neither is \<open>json\<close> at once; and the fourth predicate
  is a \<open>source\<close> property with a truthy value, whether or not \<open>detail-type\<close> is there.
\<close>

definition amended_chain :: chain where
  "amended_chain =
     [(\<lambda>e. has e ''Records'' \<and> has (first_record e) ''eventSource'',
       \<lambda>e. last_segment CHR '':'' (sub (first_record e) ''eventSource'')),
      (\<lambda>e. has e ''Records'' \<and> has (first_record e) ''EventSource'',
       \<lambda>e. last_segment CHR '':'' (sub (first_record e) ''EventSource'')),
      (\<lambda>e. has e ''Records'', \<lambda>e. ''json''),
      (\<lambda>e. has e ''source'' \<and> has e ''detail-type'' \<and> has e ''detail'', \<lambda>e. ''events''),
      (\<lambda>e. has e ''source'' \<and> truthy (sub e ''source''),
       \<lambda>e. last_segment CHR ''.'' (sub e ''source''))]
     @ later_predicates"


text \<open>
  A value whose properties can be read, and the value at the end of a path of reads.
  \<open>readable v ks\<close>: no read along the path \<open>ks\<close> is on \<open>null\<close> or \<open>undefined\<close>.
\<close>

definition non_nullish :: "jsval \<Rightarrow> bool" where
  "non_nullish v = (v \<noteq> JNull \<and> v \<noteq> JUndefined)"

fun at_path :: "jsval \<Rightarrow> string list \<Rightarrow> jsval" where
  "at_path v [] = v"
| "at_path v (k # ks) = at_path (sub v k) ks"

fun readable :: "jsval \<Rightarrow> string list \<Rightarrow> bool" where
  "readable v [] = True"
| "readable v (k # ks) = (non_nullish v \<and> readable (sub v k) ks)"

text \<open>
  For each extractor, the nested values it dereferences, the strings it calls a string
  method on, and the values it puts into a template literal; \<open>extractor_shape\<close>
  selects the condition by tag.
\<close>

definition json_shape :: "jsval \<Rightarrow> bool" where
  "json_shape context = (non_nullish context \<and> printable (sub context ''functionName''))"

definition s3_shape :: "jsval \<Rightarrow> bool" where
  "s3_shape event =
     (non_nullish (at_path event [''Records'', ''0'', ''responseElements'']) \<and>
      non_nullish (at_path event [''Records'', ''0'', ''s3'', ''bucket'']) \<and>
      non_nullish (at_path event [''Records'', ''0'', ''s3'', ''object'']) \<and>
      printable (at_path event [''Records'', ''0'', ''awsRegion'']) \<and>
      printable (at_path event [''Records'', ''0'', ''s3'', ''object'', ''key'']) \<and>
      printable (at_path event [''Records'', ''0'', ''s3'', ''object'', ''size'']) \<and>
      printable (at_path event [''Records'', ''0'', ''s3'', ''object'', ''eTag'']) \<and>
      printable (at_path event [''Records'', ''0'', ''responseElements'', ''x-amz-request-id'']))"

definition kinesis_shape :: "jsval \<Rightarrow> bool" where
  "kinesis_shape event =
     (is_string (at_path event [''Records'', ''0'', ''eventSourceARN'']) \<and>
      is_string (at_path event [''Records'', ''0'', ''eventName'']) \<and>
      non_nullish (at_path event [''Records'', ''0'', ''kinesis'']))"

definition sns_shape :: "jsval \<Rightarrow> bool" where
  "sns_shape event =
     (non_nullish (at_path event [''Records'', ''0'', ''Sns'']) \<and>
      is_string (at_path event [''Records'', ''0'', ''EventSubscriptionArn'']))"

definition sqs_shape :: "runtime \<Rightarrow> jsval \<Rightarrow> bool" where
  "sqs_shape rt event =
     (is_string (at_path event [''Records'', ''0'', ''eventSourceARN'']) \<and>
      (case sub event ''Records'' of JArr rs \<Rightarrow> list_all non_nullish rs | _ \<Rightarrow> False) \<and>
      printable (at_path event [''Records'', ''0'', ''body'']) \<and>
      getSNSTrigger rt (sub event ''Records'') \<noteq> None)"

definition api_gateway_shape :: "jsval \<Rightarrow> bool" where
  "api_gateway_shape event =
     (non_nullish (at_path event [''requestContext'']) \<and>
      non_nullish (at_path event [''headers'']))"

definition api_gateway_http2_shape :: "jsval \<Rightarrow> bool" where
  "api_gateway_http2_shape event =
     (non_nullish (at_path event [''requestContext'', ''http'']) \<and>
      non_nullish (at_path event [''headers'']))"

definition api_gateway_no_proxy_shape :: "jsval \<Rightarrow> bool" where
  "api_gateway_no_proxy_shape event =
     (non_nullish (at_path event [''context'']) \<and>
      non_nullish (at_path event [''params'', ''header'']))"

definition api_gateway_websocket_shape :: "jsval \<Rightarrow> bool" where
  "api_gateway_websocket_shape event = non_nullish (at_path event [''requestContext''])"

definition events_shape :: "jsval \<Rightarrow> bool" where
  "events_shape event = non_nullish (at_path event [''resources''])"

definition dynamodb_shape :: "runtime \<Rightarrow> jsval \<Rightarrow> bool" where
  "dynamodb_shape rt event =
     (non_nullish (at_path event [''Records'', ''0'', ''dynamodb'']) \<and>
      is_string (at_path event [''Records'', ''0'', ''eventSourceARN'']) \<and>
      (case AWS rt of
         None \<Rightarrow> True
       | Some unmarshall \<Rightarrow>
           (case unmarshall
                   (at_path event
                      [''Records'', ''0'', ''dynamodb'',
                       if at_path event [''Records'', ''0'', ''eventName''] = JStr ''REMOVE''
                       then ''Keys'' else ''NewImage''])
            of Some item \<Rightarrow> item \<noteq> JUndefined
             | None \<Rightarrow> False)))"

definition elastic_load_balancer_shape :: "jsval \<Rightarrow> bool" where
  "elastic_load_balancer_shape event =
     (non_nullish (at_path event [''headers'']) \<and>
      non_nullish (at_path event [''requestContext'', ''elb'']))"

definition cognito_shape :: "jsval \<Rightarrow> bool" where
  "cognito_shape event = non_nullish event"

definition extractor_shape :: "string \<Rightarrow> runtime \<Rightarrow> jsval \<Rightarrow> jsval \<Rightarrow> bool" where
  "extractor_shape tag rt event context =
     (if tag = ''json'' then json_shape context
      else if tag = ''s3'' then s3_shape event
      else if tag = ''kinesis'' then kinesis_shape event
      else if tag = ''events'' then events_shape event
      else if tag = ''sns'' then sns_shape event
      else if tag = ''sqs'' then sqs_shape rt event
      else if tag = ''api_gateway'' then api_gateway_shape event
      else if tag = ''api_gateway_no_proxy'' then api_gateway_no_proxy_shape event
      else if tag = ''api_gateway_websocket'' then api_gateway_websocket_shape event
      else if tag = ''api_gateway_http2'' then api_gateway_http2_shape event
      else if tag = ''dynamodb'' then dynamodb_shape rt event
      else if tag = ''elastic_load_balancer'' then elastic_load_balancer_shape event
      else if tag = ''cognito'' then cognito_shape event
      else False)"

text \<open>
  Two decoded items that are logically equal: the same keys, each once, in any order,
  with logically equal values; arrays are compared element by element.
\<close>

fun same_item :: "jsval \<Rightarrow> jsval \<Rightarrow> bool" where
  "same_item (JObj kvs) (JObj kvs') =
     (distinct (map fst kvs) \<and> distinct (map fst kvs') \<and>
      set (map fst kvs) = set (map fst kvs') \<and>
      (\<forall>kv \<in> set kvs. \<forall>kv' \<in> set kvs'. fst kv = fst kv' \<longrightarrow> same_item (snd kv) (snd kv')))"
| "same_item (JArr xs) (JArr ys) = list_all2 same_item xs ys"
| "same_item v w = (v = w)"

text \<open>
  The entry of the SQS record list for one record, with and without the content that
  metadata-only mode leaves out.
\<close>

definition full_entry :: "runtime \<Rightarrow> jsval \<Rightarrow> jsval" where
  "full_entry rt r =
     JObj [(''MD5 Of Message Body'', sub r ''md5OfBody''),
           (''Message ID'', sub r ''messageId''),
           (''Message Body'',
              truncateMessage rt (if truthy (sub r ''body'') then sub r ''body'' else JStr ''{}'')
                1024),
           (''Attributes'', sub r ''attributes''),
           (''Message Attributes'', sub r ''messageAttributes'')]"

definition metadata_entry :: "jsval \<Rightarrow> jsval" where
  "metadata_entry r =
     JObj [(''MD5 Of Message Body'', sub r ''md5OfBody''),
           (''Message ID'', sub r ''messageId'')]"

section \<open>Sample environment\<close>

text \<open>
  Decimal digits, standing for \<open>Number.prototype.toString\<close> in the sample environment,
  and a plain serialiser standing for \<open>JSON.stringify\<close> (it does not escape the
  characters of a string).
\<close>

fun dec :: "nat \<Rightarrow> string" where
  "dec n = (if n < 10 then [char_of (48 + n)] else dec (n div 10) @ [char_of (48 + n mod 10)])"

declare dec.simps [simp del]

definition show_int :: "int \<Rightarrow> string" where
  "show_int n = (if n < 0 then ''-'' @ dec (nat (- n)) else dec (nat n))"

fun show_json :: "jsval \<Rightarrow> string" where
  "show_json JUndefined = ''undefined''"
| "show_json JNull = ''null''"
| "show_json (JBool b) = (if b then ''true'' else ''false'')"
| "show_json (JNum n) = show_int n"
| "show_json (JStr s) = ''\"'' @ s @ ''\"''"
| "show_json (JArr xs) = ''['' @ join_comma (map show_json xs) @ '']''"
| "show_json (JObj kvs) =
     ''{'' @ join_comma (map (\<lambda>kv. ''\"'' @ fst kv @ ''\":'' @ show_json (snd kv)) kvs) @ ''}''"

text \<open>
  A concrete environment for the closed instances below: the SDK is loaded and its
  decoder returns the attribute map as it is, the hash is the identity, \<open>JSON.stringify\<close>
  is the plain serialiser, the only string \<open>JSON.parse\<close> accepts is the body of the
  step-function example, and no record carries an SNS message.
\<close>

definition sample_body :: string where
  "sample_body = ''{\"input\":{\"Epsagon\":{\"x\":1}}}''"

definition sample_runtime :: runtime where
  "sample_runtime =
     \<lparr> uuid4 = ''0b0e7a52'', createTimestamp = 1700000000, metadataOnly = False,
       AWS = Some Some, md5 = (\<lambda>s. s), JSON_stringify = show_json,
       JSON_parse = (\<lambda>s. if s = sample_body
                           then Some (JObj [(''input'', JObj [(''Epsagon'', JObj [(''x'', JNum 1)])])])
                           else None),
       Number_toString = show_int,
       getSNSTrigger = (\<lambda>records. Some JNull),
       truncation_marker = ''...'', max_payload = 1024 \<rparr>"

definition sample_context :: jsval where
  "sample_context = JObj [(''functionName'', JStr ''resize'')]"

text \<open>The same environment in metadata-only mode, and without the SDK.\<close>

definition metadata_only_runtime :: runtime where
  "metadata_only_runtime = sample_runtime\<lparr> metadataOnly := True \<rparr>"

definition no_sdk_runtime :: runtime where
  "no_sdk_runtime = sample_runtime\<lparr> AWS := None \<rparr>"

definition other_context :: jsval where
  "other_context = JObj [(''functionName'', JStr ''thumbnail'')]"




definition payload_s3_partial :: jsval where
  "payload_s3_partial = JObj [(''Records'', JArr [JObj [(''eventSource'', JStr ''aws:s3'')]])]"

definition payload_s3 :: jsval where
  "payload_s3 =
     JObj [(''Records'', JArr [JObj
       [(''eventSource'', JStr ''aws:s3''),
        (''eventName'', JStr ''ObjectCreated:Put''),
        (''awsRegion'', JStr ''us-east-1''),
        (''responseElements'', JObj [(''x-amz-request-id'', JStr ''C3D13FE58DE4C810'')]),
        (''s3'', JObj [(''bucket'', JObj [(''name'', JStr ''photos'')]),
                       (''object'', JObj [(''key'', JStr ''cat.jpg''), (''size'', JNum 1024),
                                          (''eTag'', JStr ''d41d8cd9'')])])]])]"

definition payload_unknown_source :: jsval where
  "payload_unknown_source = JObj [(''source'', JStr ''aws.foo'')]"

definition payload_two_sources :: jsval where
  "payload_two_sources =
     JObj [(''Records'', JArr [JObj [(''EventSource'', JStr ''aws:sns''),
                                     (''eventSource'', JStr ''aws:s3'')]])]"

definition payload_records_http :: jsval where
  "payload_records_http = JObj [(''Records'', JArr [JObj []]), (''httpMethod'', JStr ''GET'')]"

definition payload_source_detail_type :: jsval where
  "payload_source_detail_type =
     JObj [(''source'', JStr ''aws.ec2''), (''detail-type'', JStr ''EC2 State Change'')]"

definition payload_records_elb :: jsval where
  "payload_records_elb =
     JObj [(''Records'', JArr [JObj []]),
           (''requestContext'', JObj [(''elb'', JObj [])]),
           (''httpMethod'', JStr ''GET'')]"

definition payload_source_elb :: jsval where
  "payload_source_elb =
     JObj [(''source'', JStr ''aws.ec2''),
           (''detail-type'', JStr ''EC2 State Change''),
           (''requestContext'', JObj [(''elb'', JObj [])]),
           (''httpMethod'', JStr ''GET'')]"

definition payload_elb :: jsval where
  "payload_elb =
     JObj [(''requestContext'', JObj [(''elb'', JObj [(''targetGroupArn'', JStr ''arn:tg'')])]),
           (''httpMethod'', JStr ''GET''),
           (''headers'', JObj [(''host'', JStr ''example.com'')])]"

definition sample_sqs_record :: "string \<Rightarrow> jsval" where
  "sample_sqs_record body =
     JObj [(''messageId'', JStr ''19dd0b57''),
           (''eventSource'', JStr ''aws:sqs''),
           (''eventSourceARN'', JStr ''arn:aws:sqs:us-east-2:123456789012:orders''),
           (''body'', JStr body),
           (''md5OfBody'', JStr ''e4e68fb7''),
           (''attributes'', JObj [(''SenderId'', JStr ''AIDA'')]),
           (''messageAttributes'', JObj [])]"

definition payload_sqs :: "string \<Rightarrow> jsval" where
  "payload_sqs body = JObj [(''Records'', JArr [sample_sqs_record body])]"

text \<open>An SQS payload whose body is not a text but an object with a \<open>toString\<close> property.\<close>

definition object_body :: jsval where
  "object_body = JObj [(''toString'', JNum 1)]"

definition payload_sqs_object_body :: jsval where
  "payload_sqs_object_body =
     JObj [(''Records'', JArr [JObj
       [(''messageId'', JStr ''19dd0b57''),
        (''eventSource'', JStr ''aws:sqs''),
        (''eventSourceARN'', JStr ''arn:aws:sqs:us-east-2:123456789012:orders''),
        (''body'', object_body),
        (''md5OfBody'', JStr ''e4e68fb7''),
        (''attributes'', JObj [(''SenderId'', JStr ''AIDA'')]),
        (''messageAttributes'', JObj [])]])]"

definition sample_dynamodb_record :: "string \<Rightarrow> jsval \<Rightarrow> jsval" where
  "sample_dynamodb_record eventName newImage =
     JObj [(''eventID'', JStr ''c4ca4238''),
           (''eventName'', JStr eventName),
           (''eventSource'', JStr ''aws:dynamodb''),
           (''eventSourceARN'', JStr ''arn:aws:dynamodb:us-east-2:123456789012:table/orders/stream/1''),
           (''awsRegion'', JStr ''us-east-2''),
           (''dynamodb'',
              JObj [(''Keys'', JObj [(''id'', JStr ''42'')]),
                    (''NewImage'', newImage),
                    (''SequenceNumber'', JStr ''111'')])]"

definition item_a :: jsval where
  "item_a = JObj [(''id'', JStr ''42''), (''qty'', JNum 3)]"

definition item_a_reordered :: jsval where
  "item_a_reordered = JObj [(''qty'', JNum 3), (''id'', JStr ''42'')]"

definition item_b :: jsval where
  "item_b = JObj [(''id'', JStr ''42''), (''qty'', JNum 7)]"

definition payload_dynamodb :: jsval where
  "payload_dynamodb = JObj [(''Records'', JArr [sample_dynamodb_record ''INSERT'' item_a])]"

section \<open>Lemmas about the model\<close>

lemma split_char_not_Nil: "split_char c s \<noteq> []"
  by (induction s) (auto split: list.splits)

lemma triggerService_empty_object: "triggerService (JObj []) = Some ''json''"
  by (simp add: triggerService_def otherService_def andM_def)

lemma triggerService_null: "triggerService JNull = Some ''json''"
  by (simp add: triggerService_def)

lemma callFactory_json: "callFactory ''json'' = createJSONTrigger"
  by (simp add: callFactory_def resourceTypeToFactoryMap_def fun_eq_iff)

lemma js_in_Some_object: "js_in k v = Some b \<Longrightarrow> is_object v \<and> b = has v k"
  by (cases v) (auto simp: has_def)

lemma js_in_object: "is_object v \<Longrightarrow> js_in k v = Some (has v k)"
  by (cases v) (auto simp: has_def)

lemma js_get_object: "is_object v \<Longrightarrow> js_get v k = Some (sub v k)"
  by (cases v) (auto simp: sub_def)

lemma js_split_Some: "js_split v c = Some segs \<Longrightarrow> pop segs = last_segment c v"
  by (cases v) (auto simp: last_segment_def)

lemma has_not_object: "\<not> is_object v \<Longrightarrow> \<not> has v k"
  by (cases v) (auto simp: has_def)

lemma sub_absent: "is_object v \<Longrightarrow> \<not> has v k \<Longrightarrow> sub v k = JUndefined"
  by (cases v) (force simp: has_def sub_def split: option.splits dest: map_of_SomeD)+

lemma has_undefined [simp]: "\<not> has JUndefined k"
  by (simp add: has_def)

lemma recordsService_chain:
  assumes "recordsService event = Some tag" "is_object event"
  shows "tag = (if has (first_record event) ''eventSource''
                then last_segment CHR '':'' (sub (first_record event) ''eventSource'')
                else if has (first_record event) ''EventSource''
                then last_segment CHR '':'' (sub (first_record event) ''EventSource'')
                else ''json'')"
proof -
  from assms obtain r0 where p: "js_path event [''Records'', ''0''] = Some r0"
    by (auto simp: recordsService_def split: bind_splits)
  then have r0: "r0 = first_record event"
    by (auto simp: first_record_def sub_def split: bind_splits)
  from assms(1) p obtain b where "js_in ''EventSource'' r0 = Some b"
    by (auto simp: recordsService_def split: bind_splits)
  then have obj: "is_object r0" by (auto dest: js_in_Some_object)
  show ?thesis
    using assms(1) unfolding recordsService_def p
    by (auto simp: js_in_object [OF obj] js_get_object [OF obj] r0 [symmetric]
          split: bind_splits if_splits dest!: js_split_Some)
qed

lemma chain_stepE:
  assumes "(t \<bind> (\<lambda>b. if b then Some x else rest)) = Some tag"
  obtains "t = Some True" "tag = x" | "t = Some False" "rest = Some tag"
  using assms by (cases t) (auto split: if_splits)

lemma nested_test:
  assumes "is_object event"
  shows "andM (js_in k event) (do { rc \<leftarrow> js_get event k; js_in k' rc }) = Some b
         \<Longrightarrow> b = has (sub event k) k'"
  using assms
  by (auto simp: andM_def js_in_object js_get_object sub_absent
        split: if_splits dest: js_in_Some_object)

lemma nested_test2:
  assumes "is_object event"
  shows "andM (js_in k event)
           (andM (do { rc \<leftarrow> js_get event k; js_in k1 rc })
                 (do { rc \<leftarrow> js_get event k; js_in k2 rc })) = Some b
         \<Longrightarrow> b = (has (sub event k) k1 \<and> has (sub event k) k2)"
  using assms
  by (auto simp: andM_def js_in_object js_get_object sub_absent
        split: if_splits bind_splits dest: js_in_Some_object)

lemma otherService_chain:
  assumes "otherService event = Some tag" "is_object event"
  shows "tag = (if has event ''source'' \<and> has event ''detail-type'' \<and> has event ''detail''
                then ''events''
                else if has event ''source'' \<and> truthy (sub event ''source'')
                then last_segment CHR ''.'' (sub event ''source'')
                else first_match later_predicates event)"
proof -
  note ev = assms(2)
  have flat: "andM (js_in ''source'' event)
                (andM (js_in ''detail-type'' event) (js_in ''detail'' event))
              = Some (has event ''source'' \<and> has event ''detail-type'' \<and> has event ''detail'')"
    by (simp add: andM_def js_in_object [OF ev])
  have src: "andM (js_in ''source'' event) (map_option truthy (js_get event ''source''))
              = Some (has event ''source'' \<and> truthy (sub event ''source''))"
    by (simp add: andM_def js_in_object [OF ev] js_get_object [OF ev])
  show ?thesis
  proof (cases "has event ''source'' \<and> has event ''detail-type'' \<and> has event ''detail''")
    case True
    then show ?thesis using assms(1) unfolding otherService_def flat by simp
  next
    case notEvents: False
    show ?thesis
    proof (cases "has event ''source'' \<and> truthy (sub event ''source'')")
      case True
      then show ?thesis
        using assms(1) notEvents unfolding otherService_def flat src
        by (auto simp: js_get_object [OF ev] split: bind_splits dest!: js_split_Some)
    next
      case False
      from notEvents
      have c1: "(has event ''source'' \<and> has event ''detail-type'' \<and> has event ''detail'') = False"
        by simp
      from False have c2: "(has event ''source'' \<and> truthy (sub event ''source'')) = False"
        by simp
      from assms(1)
      have "(andM (js_in ''requestContext'' event)
               (do { rc \<leftarrow> js_get event ''requestContext''; js_in ''elb'' rc })
             \<bind> (\<lambda>isElb. if isElb then Some ''elastic_load_balancer'' else
            js_in ''httpMethod'' event
             \<bind> (\<lambda>hasMethod. if hasMethod then Some ''api_gateway'' else
            andM (js_in ''context'' event)
               (do { c \<leftarrow> js_get event ''context''; js_in ''http-method'' c })
             \<bind> (\<lambda>isNoProxy. if isNoProxy then Some ''api_gateway_no_proxy'' else
            js_in ''dynamodb'' event
             \<bind> (\<lambda>hasDynamo. if hasDynamo then Some ''dynamodb'' else
            js_in ''userPoolId'' event
             \<bind> (\<lambda>hasPool. if hasPool then Some ''cognito'' else
            andM (js_in ''requestContext'' event)
               (andM (do { rc \<leftarrow> js_get event ''requestContext''; js_in ''apiId'' rc })
                     (do { rc \<leftarrow> js_get event ''requestContext''; js_in ''http'' rc }))
             \<bind> (\<lambda>isHttp2. if isHttp2 then Some ''api_gateway_http2'' else
            andM (js_in ''requestContext'' event)
               (do { rc \<leftarrow> js_get event ''requestContext''; js_in ''apiId'' rc })
             \<bind> (\<lambda>isWebSocket. if isWebSocket then Some ''api_gateway_websocket''
                                else Some ''json'')))))))) = Some tag"
        unfolding otherService_def flat src c1 c2 by simp
      then have "tag = first_match later_predicates event"
        unfolding later_predicates_def first_match.simps
        by (elim chain_stepE)
           (auto dest!: nested_test [OF ev] nested_test2 [OF ev] js_in_Some_object)
      then show ?thesis unfolding c1 c2 by simp
    qed
  qed
qed

lemma js_get_eq_Some: "js_get v k = Some w \<longleftrightarrow> non_nullish v \<and> w = sub v k"
  by (cases v) (auto simp: non_nullish_def sub_def)

lemma non_nullish_sub: "non_nullish (sub v k) \<Longrightarrow> non_nullish v"
  by (cases v) (auto simp: non_nullish_def sub_def)

lemma is_string_non_nullish: "is_string v \<Longrightarrow> non_nullish v"
  by (cases v) (auto simp: non_nullish_def)

lemma js_path_eq_Some: "js_path v ks = Some w \<longleftrightarrow> readable v ks \<and> w = at_path v ks"
  by (induction ks arbitrary: v) (auto simp: js_get_eq_Some bind_eq_Some_conv)

lemma orM_eq_Some:
  "orM a b = Some x \<longleftrightarrow> (\<exists>y. a = Some y \<and> (if truthy y then x = y else b = Some x))"
  by (cases a) (auto simp: orM_def)

lemma js_split_eq_Some: "js_split v c = Some segs \<longleftrightarrow> is_string v \<and> segs = split_char c (str_of v)"
  by (cases v) auto

lemma js_remove_eq_Some:
  "js_remove v pat = Some w \<longleftrightarrow> is_string v \<and> w = JStr (remove_first pat (str_of v))"
  by (cases v) auto

lemma those_map_Some_iff:
  "(\<exists>ys. those (map f xs) = Some ys) \<longleftrightarrow> list_all (\<lambda>x. f x \<noteq> None) xs"
  by (induction xs) (auto split: option.splits)

lemma js_to_string_Some_iff: "(\<exists>s. js_to_string rt v = Some s) \<longleftrightarrow> printable v"
proof (induction v rule: printable.induct)
  case (2 xs)
  let ?f = "\<lambda>x. if x = JNull \<or> x = JUndefined then Some [] else js_to_string rt x"
  have "list_all (\<lambda>x. ?f x \<noteq> None) xs = list_all printable xs"
  proof (rule list_all_cong [OF refl])
    fix x assume "x \<in> set xs"
    from "2.IH" [OF this] show "(?f x \<noteq> None) = printable x" by auto
  qed
  with those_map_Some_iff [of ?f xs] show ?case by simp
qed simp_all

lemma js_to_string_eq_Some:
  "js_to_string rt v = Some s \<longleftrightarrow> printable v \<and> s = the (js_to_string rt v)"
  using js_to_string_Some_iff [of rt v] by auto

lemma template_eq_Some:
  "template rt v = Some w \<longleftrightarrow> printable v \<and> w = JStr (the (js_to_string rt v))"
  using js_to_string_Some_iff [of rt v] by (auto simp: template_def)

lemmas read_simps = bind_eq_Some_conv js_path_eq_Some js_get_eq_Some orM_eq_Some
  js_split_eq_Some js_remove_eq_Some js_to_string_eq_Some template_eq_Some

lemma json_iff:
  "(\<exists>t. createJSONTrigger rt event trigger context = Some t) \<longleftrightarrow> json_shape context"
  unfolding createJSONTrigger_def json_shape_def
  by (auto simp: read_simps simp del: js_path.simps)

lemma s3_iff: "(\<exists>t. createS3Trigger rt event trigger = Some t) \<longleftrightarrow> s3_shape event"
  unfolding createS3Trigger_def s3_shape_def
  by (auto simp: read_simps simp del: js_path.simps dest: non_nullish_sub)

lemma kinesis_iff: "(\<exists>t. createKinesisTrigger rt event trigger = Some t) \<longleftrightarrow> kinesis_shape event"
  unfolding createKinesisTrigger_def kinesis_shape_def
  by (auto simp: read_simps simp del: js_path.simps dest: non_nullish_sub is_string_non_nullish)

lemma sns_iff: "(\<exists>t. createSNSTrigger rt event trigger = Some t) \<longleftrightarrow> sns_shape event"
  unfolding createSNSTrigger_def sns_shape_def
  by (auto simp: read_simps simp del: js_path.simps dest: non_nullish_sub is_string_non_nullish)

lemma api_gateway_iff:
  "(\<exists>t. createAPIGatewayTrigger rt event trigger = Some t) \<longleftrightarrow> api_gateway_shape event"
  unfolding createAPIGatewayTrigger_def api_gateway_shape_def
  by (auto simp: read_simps simp del: js_path.simps dest: non_nullish_sub)

lemma api_gateway_http2_iff:
  "(\<exists>t. createAPIGatewayHTTPV2Trigger rt event trigger = Some t) \<longleftrightarrow> api_gateway_http2_shape event"
  unfolding createAPIGatewayHTTPV2Trigger_def api_gateway_http2_shape_def
  by (auto simp: read_simps simp del: js_path.simps dest: non_nullish_sub)

lemma api_gateway_no_proxy_iff:
  "(\<exists>t. createNoProxyAPIGatewayTrigger rt event trigger = Some t) \<longleftrightarrow> api_gateway_no_proxy_shape event"
  unfolding createNoProxyAPIGatewayTrigger_def api_gateway_no_proxy_shape_def
  by (auto simp: read_simps simp del: js_path.simps dest: non_nullish_sub)

lemma api_gateway_websocket_iff:
  "(\<exists>t. createWebSocketTrigger rt event trigger = Some t) \<longleftrightarrow> api_gateway_websocket_shape event"
  unfolding createWebSocketTrigger_def api_gateway_websocket_shape_def
  by (auto simp: read_simps simp del: js_path.simps dest: non_nullish_sub)

lemma events_iff:
  "(\<exists>t. createEventsTrigger rt event trigger = Some t) \<longleftrightarrow> events_shape event"
  unfolding createEventsTrigger_def events_shape_def
  by (auto simp: read_simps simp del: js_path.simps dest: non_nullish_sub split: jsval.splits)

lemma elastic_load_balancer_iff:
  "(\<exists>t. createElbTrigger rt event trigger = Some t) \<longleftrightarrow> elastic_load_balancer_shape event"
  unfolding createElbTrigger_def elastic_load_balancer_shape_def
  by (auto simp: read_simps simp del: js_path.simps dest: non_nullish_sub)

lemma cognito_iff:
  "(\<exists>t. createCognitoTrigger rt event trigger = Some t) \<longleftrightarrow> cognito_shape event"
  unfolding createCognitoTrigger_def cognito_shape_def
  by (auto simp: read_simps simp del: js_path.simps)

lemma sqsRecord_Some_iff: "(\<exists>e. sqsRecord rt r = Some e) \<longleftrightarrow> non_nullish r"
  unfolding sqsRecord_def
  by (auto simp: read_simps)

lemma js_map_eq_Some:
  "js_map v f = Some w \<longleftrightarrow> (\<exists>xs ys. v = JArr xs \<and> those (map f xs) = Some ys \<and> w = JArr ys)"
  by (cases v) auto

lemma js_map_sqsRecord_iff:
  "(\<exists>w. js_map v (sqsRecord rt) = Some w) \<longleftrightarrow>
   (case v of JArr rs \<Rightarrow> list_all non_nullish rs | _ \<Rightarrow> False)"
proof (cases v)
  case (JArr rs)
  have "(\<lambda>x. sqsRecord rt x \<noteq> None) = non_nullish"
    using sqsRecord_Some_iff [of rt] by (auto simp: fun_eq_iff)
  then show ?thesis
    using those_map_Some_iff [of "sqsRecord rt" rs] JArr by (auto simp: js_map_eq_Some)
qed auto

lemma canon_undefined: "canon v = JUndefined \<longleftrightarrow> v = JUndefined"
  by (cases v) auto

lemma md5_sortify_Some_iff:
  "(\<exists>h. md5_call rt (JSON_sortify rt item) = Some h) \<longleftrightarrow> item \<noteq> JUndefined"
  by (auto simp: md5_call_def JSON_sortify_def json_stringify_def canon_undefined)

lemma itemHash_Some_iff:
  "(\<exists>h. itemHash rt record = Some h) \<longleftrightarrow>
   (case AWS rt of
      None \<Rightarrow> True
    | Some unmarshall \<Rightarrow>
        non_nullish (sub record ''dynamodb'') \<and>
        (case unmarshall (at_path record [''dynamodb'',
                 if sub record ''eventName'' = JStr ''REMOVE'' then ''Keys'' else ''NewImage''])
         of Some item \<Rightarrow> item \<noteq> JUndefined | None \<Rightarrow> False))"
  unfolding itemHash_def
  using md5_sortify_Some_iff [of rt]
  by (auto simp: read_simps simp del: js_path.simps split: option.splits dest: non_nullish_sub)

lemma dynamodb_iff:
  "(\<exists>t. createDynamoDBTrigger rt event trigger = Some t) \<longleftrightarrow> dynamodb_shape rt event"
proof -
  let ?r = "at_path event [''Records'', ''0'']"
  have "(\<exists>t. createDynamoDBTrigger rt event trigger = Some t) \<longleftrightarrow>
        (\<exists>h. itemHash rt ?r = Some h) \<and>
        non_nullish (sub ?r ''dynamodb'') \<and> is_string (sub ?r ''eventSourceARN'')"
    unfolding createDynamoDBTrigger_def
    by (auto simp: read_simps simp del: js_path.simps
          dest: non_nullish_sub is_string_non_nullish)
  then show ?thesis
    unfolding itemHash_Some_iff dynamodb_shape_def
    by (auto split: option.splits)
qed




lemma triggerService_chain:
  assumes "triggerService event = Some tag"
  shows "tag = first_match amended_chain event"
proof (cases "truthy event")
  case False
  then have "\<not> is_object event" by (cases event) auto
  then have "\<And>k. \<not> has event k" by (rule has_not_object)
  moreover have "\<And>k. \<not> is_object (sub event k)"
    using False by (cases event) (auto simp: sub_def split: option.splits)
  ultimately have "first_match amended_chain event = ''json''"
    by (auto simp: amended_chain_def later_predicates_def dest: has_not_object)
  with False assms show ?thesis by (simp add: triggerService_def)
next
  case True
  with assms obtain b where b: "js_in ''Records'' event = Some b"
    by (auto simp: triggerService_def split: bind_splits)
  then have ev: "is_object event" and bh: "b = has event ''Records''"
    by (auto dest: js_in_Some_object)
  show ?thesis
  proof (cases "has event ''Records''")
    case True
    with assms \<open>truthy event\<close> have "recordsService event = Some tag"
      by (simp add: triggerService_def js_in_object [OF ev])
    from recordsService_chain [OF this ev] True show ?thesis
      by (simp add: amended_chain_def)
  next
    case False
    with assms \<open>truthy event\<close> have "otherService event = Some tag"
      by (simp add: triggerService_def js_in_object [OF ev])
    from otherService_chain [OF this ev] False show ?thesis
      by (simp add: amended_chain_def)
  qed
qed

lemma later_predicates_enumeration: "first_match later_predicates event \<in> set enumeration"
  by (simp add: later_predicates_def enumeration_def)

lemma registry_domain: "(map_of resourceTypeToFactoryMap tag \<noteq> None) = (tag \<in> set enumeration)"
  by (simp add: resourceTypeToFactoryMap_def enumeration_def)

lemma has_sub_parent: "has (sub v k) k' \<Longrightarrow> is_object v \<and> has v k"
proof -
  assume h: "has (sub v k) k'"
  then have o: "is_object (sub v k)" using has_not_object by blast
  then have "is_object v"
    by (cases v) (auto simp: sub_def split: option.splits if_splits)
  moreover have "has v k"
  proof (rule ccontr)
    assume "\<not> has v k"
    with \<open>is_object v\<close> have "sub v k = JUndefined" by (rule sub_absent)
    with o show False by simp
  qed
  ultimately show ?thesis by simp
qed

lemma events_test:
  assumes "is_object event"
  shows "andM (js_in ''source'' event)
           (andM (js_in ''detail-type'' event) (js_in ''detail'' event))
         = Some (has event ''source'' \<and> has event ''detail-type'' \<and> has event ''detail'')"
  by (simp add: andM_def js_in_object [OF assms])

lemma source_test:
  assumes "is_object event"
  shows "andM (js_in ''source'' event) (map_option truthy (js_get event ''source''))
         = Some (has event ''source'' \<and> truthy (sub event ''source''))"
  by (simp add: andM_def js_in_object [OF assms] js_get_object [OF assms])

lemma elb_test:
  assumes "has (sub event ''requestContext'') ''elb''"
  shows "andM (js_in ''requestContext'' event)
           (do { rc \<leftarrow> js_get event ''requestContext''; js_in ''elb'' rc }) = Some True"
proof -
  from assms have ev: "is_object event" and rc: "has event ''requestContext''"
    by (auto dest: has_sub_parent)
  from assms have rco: "is_object (sub event ''requestContext'')"
    using has_not_object by blast
  show ?thesis
    using assms rc
    by (simp add: andM_def js_in_object [OF ev] js_get_object [OF ev] js_in_object [OF rco])
qed

lemma filter_key_distinct:
  "distinct (map fst xs) \<Longrightarrow> k \<in> set xs \<Longrightarrow> filter (\<lambda>x. fst k = fst x) xs = [k]"
proof (induction xs)
  case Nil then show ?case by simp
next
  case (Cons x xs)
  show ?case
  proof (cases "k = x")
    case True
    with Cons.prems have "\<forall>y \<in> set xs. fst y \<noteq> fst x" by (auto simp: image_iff)
    then have "filter (\<lambda>y. fst x = fst y) xs = []" by (auto simp: filter_empty_conv)
    with True show ?thesis by simp
  next
    case False
    with Cons.prems have "k \<in> set xs" "fst k \<noteq> fst x" by (auto simp: image_iff)
    with Cons show ?thesis by simp
  qed
qed

lemma sort_key_distinct_keys:
  assumes "distinct (map fst xs)" "distinct (map fst ys)" "set xs = set ys"
  shows "sort_key fst xs = sort_key fst ys"
proof (rule properties_for_sort_key)
  have dx: "distinct xs" and dy: "distinct ys"
    using assms(1,2) by (simp_all add: distinct_map)
  with assms(3) have m: "mset xs = mset ys"
    by (simp add: set_eq_iff_mset_eq_distinct)
  then show "mset (sort_key fst ys) = mset xs" by simp
  show "sorted (map fst (sort_key fst ys))" by simp
  fix k assume "k \<in> set (sort_key fst ys)"
  then have ky: "k \<in> set ys" by simp
  then have kx: "k \<in> set xs" using assms(3) by simp
  have "filter (\<lambda>x. fst k = fst x) (sort_key fst ys) = sort_key fst (filter (\<lambda>x. fst k = fst x) ys)"
    by (simp add: filter_sort)
  also have "\<dots> = [k]" using filter_key_distinct [OF assms(2) ky] by simp
  also have "\<dots> = filter (\<lambda>x. fst k = fst x) xs"
    using filter_key_distinct [OF assms(1) kx] by simp
  finally show "filter (\<lambda>x. fst k = fst x) (sort_key fst ys) = filter (\<lambda>x. fst k = fst x) xs" .
qed

lemma same_item_canon: "same_item a b \<Longrightarrow> canon a = canon b"
proof (induction a b rule: same_item.induct)
  case (1 kvs kvs')
  let ?f = "\<lambda>kv. (fst kv, canon (snd kv))"
  from "1.prems" have dk: "distinct (map fst kvs)" and dk': "distinct (map fst kvs')"
    and keys: "set (map fst kvs) = set (map fst kvs')"
    and vals: "\<forall>kv \<in> set kvs. \<forall>kv' \<in> set kvs'. fst kv = fst kv' \<longrightarrow> same_item (snd kv) (snd kv')"
    by simp_all
  have ih: "\<And>kv kv'. kv \<in> set kvs \<Longrightarrow> kv' \<in> set kvs' \<Longrightarrow> fst kv = fst kv'
            \<Longrightarrow> canon (snd kv) = canon (snd kv')"
    using "1.IH" vals by blast
  have "set (map ?f kvs) = set (map ?f kvs')"
  proof (intro set_eqI iffI)
    fix x assume "x \<in> set (map ?f kvs)"
    then obtain kv where kv: "kv \<in> set kvs" "x = ?f kv" by auto
    from kv(1) have "fst kv \<in> set (map fst kvs)" by simp
    then have "fst kv \<in> set (map fst kvs')" unfolding keys .
    then obtain kv' where kv': "kv' \<in> set kvs'" "fst kv' = fst kv" by auto
    with kv ih [of kv kv'] have x: "x = ?f kv'" by simp
    have "?f kv' \<in> set (map ?f kvs')" using kv'(1) by auto
    then show "x \<in> set (map ?f kvs')" unfolding x .
  next
    fix x assume "x \<in> set (map ?f kvs')"
    then obtain kv' where kv': "kv' \<in> set kvs'" "x = ?f kv'" by auto
    from kv'(1) have "fst kv' \<in> set (map fst kvs')" by simp
    then have "fst kv' \<in> set (map fst kvs)" unfolding keys [symmetric] .
    then obtain kv where kv: "kv \<in> set kvs" "fst kv = fst kv'" by auto
    with kv' ih [of kv kv'] have x: "x = ?f kv" by simp
    have "?f kv \<in> set (map ?f kvs)" using kv(1) by auto
    then show "x \<in> set (map ?f kvs)" unfolding x .
  qed
  moreover have "distinct (map fst (map ?f kvs))" "distinct (map fst (map ?f kvs'))"
    using dk dk' by (simp_all add: comp_def)
  ultimately have "sort_key fst (map ?f kvs) = sort_key fst (map ?f kvs')"
    by (intro sort_key_distinct_keys)
  then show ?case by simp
next
  case (2 xs ys)
  from "2.prems" have "list_all2 same_item xs ys" by simp
  then have "list_all2 (\<lambda>x y. canon x = canon y) xs ys"
    by (rule list.rel_mono_strong) (rule "2.IH")
  then have "map canon xs = map canon ys"
    by (induction rule: list_all2_induct) auto
  then show ?case by simp
qed simp_all

lemma createFromEvent_type:
  "createFromEvent rt event context = Some t \<Longrightarrow> triggerService event = Some (resource_type t)"
  by (auto simp: createFromEvent_def fillCommonFields_def bind_eq_Some_conv)

lemma callFactory_context:
  "tag \<noteq> ''json'' \<Longrightarrow>
   callFactory tag rt event trigger context1 = callFactory tag rt event trigger context2"
  by (simp add: callFactory_def resourceTypeToFactoryMap_def)

lemma json_name_only:
  assumes "createJSONTrigger rt event trigger context1 = Some t1"
      and "createJSONTrigger rt event trigger context2 = Some t2"
  shows "t1\<lparr>resource_name := resource_name t2\<rparr> = t2"
  using assms
  by (auto simp: createJSONTrigger_def addToMetadata_def bind_eq_Some_conv)

lemma createFromEvent_name_only:
  assumes "createFromEvent rt event context1 = Some t1"
      and "createFromEvent rt event context2 = Some t2"
  shows "t1\<lparr>resource_name := resource_name t2\<rparr> = t2"
proof -
  from assms obtain tag u1 u2 where tag: "triggerService event = Some tag"
    and u1: "callFactory tag rt event new_trigger context1 = Some u1"
    and u2: "callFactory tag rt event new_trigger context2 = Some u2"
    and t1: "t1 = fillCommonFields rt u1 tag" and t2: "t2 = fillCommonFields rt u2 tag"
    by (auto simp: createFromEvent_def bind_eq_Some_conv)
  show ?thesis
  proof (cases "tag = ''json''")
    case True
    with u1 u2 have "u1\<lparr>resource_name := resource_name u2\<rparr> = u2"
      by (simp add: callFactory_json json_name_only)
    then show ?thesis
      unfolding t1 t2 fillCommonFields_def
      by (cases u1, cases u2) simp
  next
    case False
    from callFactory_context [OF this, of rt event new_trigger context1 context2] u1 u2
    have "u1 = u2" by simp
    then show ?thesis unfolding t1 t2 by simp
  qed
qed

lemma js_get_eq: "js_get v k = (if non_nullish v then Some (sub v k) else None)"
  by (cases v) (auto simp: non_nullish_def sub_def)

lemma sqsRecord_eq:
  "sqsRecord rt r =
     (if non_nullish r
      then Some (if metadataOnly rt then metadata_entry r else full_entry rt r)
      else None)"
  by (simp add: sqsRecord_def full_entry_def metadata_entry_def MAX_SQS_BODY_LENGTH_def
        js_get_eq orM_def)

lemma those_map_total:
  "(\<And>x. x \<in> set xs \<Longrightarrow> f x = Some (g x)) \<Longrightarrow> those (map f xs) = Some (map g xs)"
  by (induction xs) auto

lemma those_map_Some_all:
  "those (map f xs) = Some ys \<Longrightarrow> list_all (\<lambda>x. f x \<noteq> None) xs"
  using those_map_Some_iff [of f xs] by blast

lemma sqs_entries:
  assumes "list_all non_nullish rs"
  shows "those (map (sqsRecord rt) rs) =
         Some (map (\<lambda>r. if metadataOnly rt then metadata_entry r else full_entry rt r) rs)"
  using assms by (intro those_map_total) (simp add: sqsRecord_eq list_all_iff)

lemma printable_or_default: "printable (if truthy b then b else JStr ''{}'') = printable b"
  by (cases b) auto

lemma sqsStepsDict_printable: "sqsStepsDict rt t b = Some t' \<Longrightarrow> printable b"
  by (auto simp: sqsStepsDict_def bind_eq_Some_conv js_to_string_eq_Some)

lemma sqsTryStepsDict_Some_iff: "(\<exists>t'. sqsTryStepsDict rt t b = Some t') \<longleftrightarrow> printable b"
proof (cases "sqsStepsDict rt t b")
  case None
  then show ?thesis
    by (simp add: sqsTryStepsDict_def bind_eq_Some_conv template_eq_Some)
next
  case (Some t')
  then have "printable b" by (rule sqsStepsDict_printable)
  with Some show ?thesis by (simp add: sqsTryStepsDict_def)
qed

lemma sqsTryStepsDict_other:
  "sqsTryStepsDict rt t b = Some t' \<Longrightarrow> k \<noteq> ''steps_dict'' \<Longrightarrow>
   annotations t' k = annotations t k"
  by (auto simp: sqsTryStepsDict_def sqsStepsDict_def addToMetadata_def map_add_def
        split: option.splits bind_splits if_splits)

lemma sub_Epsagon_object: "sub v ''Epsagon'' = JObj steps \<Longrightarrow> truthy v"
  by (cases v) (auto simp: sub_def array_index_def is_digit_def split: if_splits)

lemma sqsTryStepsDict_parsed:
  assumes "js_to_string rt body = Some bodyText"
      and "JSON_parse rt bodyText = Some mb"
      and "js_path mb [''input'', ''Epsagon''] = Some (JObj steps)"
  shows "sqsTryStepsDict rt t body =
         Some (addToMetadata rt t [(''steps_dict'', JObj steps)] [])"
proof -
  from assms(3) have nn: "non_nullish mb" "non_nullish (sub mb ''input'')"
    and eps: "sub (sub mb ''input'') ''Epsagon'' = JObj steps"
    by (auto simp: js_get_eq bind_eq_Some_conv split: if_splits)
  from eps have tr: "truthy (sub mb ''input'')" by (rule sub_Epsagon_object)
  show ?thesis
    using nn eps tr
    by (simp add: sqsTryStepsDict_def sqsStepsDict_def assms(1,2) js_get_eq)
qed

lemma sqsTryStepsDict_unparsed:
  assumes "js_to_string rt body = Some bodyText"
      and "JSON_parse rt bodyText = None"
  shows "sqsTryStepsDict rt t body = Some t"
  using assms by (simp add: sqsTryStepsDict_def sqsStepsDict_def template_def)

lemma createSQSTrigger_eval:
  assumes R: "js_get event ''Records'' = Some (JArr (r0 # rest))"
      and NN: "list_all non_nullish (r0 # rest)"
      and ARN: "is_string (sub r0 ''eventSourceARN'')"
      and SNS: "getSNSTrigger rt (JArr (r0 # rest)) = Some snsData"
  shows "createSQSTrigger rt event trigger =
         do { t2 \<leftarrow> sqsTryStepsDict rt
                      (addToMetadata rt
                          (trigger\<lparr> trigger_id := sub r0 ''messageId'',
                                    resource_name :=
                                      seg_at (slice_last 1
                                        (split_char CHR '':''
                                           (str_of (sub r0 ''eventSourceARN'')))) 0,
                                    resource_operation := JStr ''ReceiveMessage'' \<rparr>)
                          [(''record'',
                              JArr (map (\<lambda>r. if metadataOnly rt then metadata_entry r
                                              else full_entry rt r) (r0 # rest))),
                           (''total_record_count'', JNum (int (length (r0 # rest))))]
                          [])
                      (if truthy (sub r0 ''body'') then sub r0 ''body'' else JStr ''{}'');
              Some (if snsData \<noteq> JNull \<and> snsData \<noteq> JUndefined
                    then addToMetadata rt t2 [(''SNS Trigger'', snsData)] []
                    else t2) }"
proof -
  from NN have r0: "non_nullish r0" by simp
  have first: "js_get (JArr (r0 # rest)) ''0'' = Some r0"
    by (simp add: array_index_def is_digit_def)
  have field: "\<And>k. js_path event [''Records'', ''0'', k] = Some (sub r0 k)"
  proof -
    fix k
    have "js_get r0 k = Some (sub r0 k)" using r0 by (simp add: js_get_eq)
    then show "js_path event [''Records'', ''0'', k] = Some (sub r0 k)"
      by (simp add: R array_index_def is_digit_def)
  qed
  have len: "js_path event [''Records'', ''length''] = Some (JNum (int (length (r0 # rest))))"
    by (simp add: R)
  have split: "js_split (sub r0 ''eventSourceARN'') CHR '':'' =
               Some (split_char CHR '':'' (str_of (sub r0 ''eventSourceARN'')))"
    using ARN by (simp add: js_split_eq_Some)
  have body: "orM (Some (sub r0 ''body'')) (Some (JStr ''{}'')) =
              Some (if truthy (sub r0 ''body'') then sub r0 ''body'' else JStr ''{}'')"
    by (simp add: orM_def)
  have list: "js_map (JArr (r0 # rest)) (sqsRecord rt) =
              Some (JArr (map (\<lambda>r. if metadataOnly rt then metadata_entry r
                                    else full_entry rt r) (r0 # rest)))"
    using sqs_entries [OF NN, of rt] by simp
  show ?thesis
    unfolding createSQSTrigger_def field len R
    by (simp add: list SNS split body Let_def del: js_map.simps js_split.simps)
qed

lemma annotations_addToMetadata:
  "annotations (addToMetadata rt t dataToAdd payloadToAdd) k =
     (case map_of dataToAdd k of Some v \<Rightarrow> Some v | None \<Rightarrow> annotations t k)"
  by (simp add: addToMetadata_def map_add_def)

lemma createSQSTrigger_annotations:
  assumes R: "js_get event ''Records'' = Some (JArr (r0 # rest))"
      and NN: "list_all non_nullish (r0 # rest)"
      and ARN: "is_string (sub r0 ''eventSourceARN'')"
      and SNS: "getSNSTrigger rt (JArr (r0 # rest)) = Some snsData"
      and PR: "printable (if truthy (sub r0 ''body'') then sub r0 ''body'' else JStr ''{}'')"
  obtains t t1 t2 where
    "createSQSTrigger rt event trigger = Some t"
    "annotations t ''record'' =
       Some (JArr (map (\<lambda>r. if metadataOnly rt then metadata_entry r else full_entry rt r)
                       (r0 # rest)))"
    "annotations t ''total_record_count'' = Some (JNum (int (length (r0 # rest))))"
    "sqsTryStepsDict rt t1
       (if truthy (sub r0 ''body'') then sub r0 ''body'' else JStr ''{}'') = Some t2"
    "annotations t ''steps_dict'' = annotations t2 ''steps_dict''"
    "annotations t1 ''steps_dict'' = annotations trigger ''steps_dict''"
proof -
  define t1 where "t1 = addToMetadata rt
                          (trigger\<lparr> trigger_id := sub r0 ''messageId'',
                                    resource_name :=
                                      seg_at (slice_last 1
                                        (split_char CHR '':''
                                           (str_of (sub r0 ''eventSourceARN'')))) 0,
                                    resource_operation := JStr ''ReceiveMessage'' \<rparr>)
                          [(''record'',
                              JArr (map (\<lambda>r. if metadataOnly rt then metadata_entry r
                                              else full_entry rt r) (r0 # rest))),
                           (''total_record_count'', JNum (int (length (r0 # rest))))]
                          []"
  from PR obtain t2 where t2: "sqsTryStepsDict rt t1
       (if truthy (sub r0 ''body'') then sub r0 ''body'' else JStr ''{}'') = Some t2"
    using sqsTryStepsDict_Some_iff by blast
  define t where "t = (if snsData \<noteq> JNull \<and> snsData \<noteq> JUndefined
                       then addToMetadata rt t2 [(''SNS Trigger'', snsData)] [] else t2)"
  have run: "createSQSTrigger rt event trigger = Some t"
    unfolding createSQSTrigger_eval [OF R NN ARN SNS] t1_def [symmetric]
    by (simp add: t2 t_def)
  have keep: "\<And>k. k \<noteq> ''SNS Trigger'' \<Longrightarrow> annotations t k = annotations t2 k"
    by (simp add: t_def annotations_addToMetadata)
  have rec1: "annotations t1 ''record'' =
       Some (JArr (map (\<lambda>r. if metadataOnly rt then metadata_entry r else full_entry rt r)
                       (r0 # rest)))"
    and cnt1: "annotations t1 ''total_record_count'' = Some (JNum (int (length (r0 # rest))))"
    and steps1: "annotations t1 ''steps_dict'' = annotations trigger ''steps_dict''"
    by (simp_all add: t1_def annotations_addToMetadata)
  have "annotations t ''record'' = annotations t1 ''record''"
    and "annotations t ''total_record_count'' = annotations t1 ''total_record_count''"
    and "annotations t ''steps_dict'' = annotations t2 ''steps_dict''"
    by (simp_all add: keep sqsTryStepsDict_other [OF t2])
  with run rec1 cnt1 steps1 t2 show ?thesis
    using that [of t t1 t2] by simp
qed

lemma sqs_shape_records:
  assumes "sqs_shape rt event"
  obtains r0 rest snsData where
    "js_get event ''Records'' = Some (JArr (r0 # rest))"
    "list_all non_nullish (r0 # rest)"
    "is_string (sub r0 ''eventSourceARN'')"
    "getSNSTrigger rt (JArr (r0 # rest)) = Some snsData"
    "printable (if truthy (sub r0 ''body'') then sub r0 ''body'' else JStr ''{}'')"
proof -
  from assms have str: "is_string (sub (sub (sub event ''Records'') ''0'') ''eventSourceARN'')"
    and pr: "printable (sub (sub (sub event ''Records'') ''0'') ''body'')"
    by (simp_all add: sqs_shape_def)
  then have nn0: "non_nullish (sub (sub event ''Records'') ''0'')"
    by (auto dest!: is_string_non_nullish dest: non_nullish_sub)
  then have ev: "non_nullish event"
    by (auto dest: non_nullish_sub)
  from assms obtain rs where rs: "sub event ''Records'' = JArr rs" "list_all non_nullish rs"
    by (auto simp: sqs_shape_def split: jsval.splits)
  from nn0 rs(1) have "rs \<noteq> []"
    by (auto simp: sub_def non_nullish_def array_index_def is_digit_def)
  then obtain r0 rest where cons: "rs = r0 # rest" by (cases rs) auto
  then have r0: "sub (sub event ''Records'') ''0'' = r0"
    using rs(1) by (simp add: sub_def array_index_def is_digit_def)
  from assms rs(1) obtain snsData where "getSNSTrigger rt (JArr rs) = Some snsData"
    by (auto simp: sqs_shape_def)
  with ev rs cons r0 str pr show ?thesis
    using that [of r0 rest snsData] by (simp add: js_get_eq printable_or_default)
qed

lemma sqs_iff: "(\<exists>t. createSQSTrigger rt event trigger = Some t) \<longleftrightarrow> sqs_shape rt event"
proof
  assume "\<exists>t. createSQSTrigger rt event trigger = Some t"
  then obtain w s b u u' where "is_string (at_path event [''Records'', ''0'', ''eventSourceARN''])"
      and "js_map (sub event ''Records'') (sqsRecord rt) = Some w"
      and "getSNSTrigger rt (sub event ''Records'') = Some s"
      and b: "orM (js_path event [''Records'', ''0'', ''body'']) (Some (JStr ''{}'')) = Some b"
      and u: "sqsTryStepsDict rt u b = Some u'"
    unfolding createSQSTrigger_def
    by (auto simp: bind_eq_Some_conv js_path_eq_Some js_get_eq_Some js_split_eq_Some
          simp del: js_path.simps)
  moreover from u have "printable b" using sqsTryStepsDict_Some_iff by blast
  with b have "printable (at_path event [''Records'', ''0'', ''body''])"
    using printable_or_default [of "at_path event [''Records'', ''0'', ''body'']"]
    by (auto simp: orM_eq_Some js_path_eq_Some simp del: js_path.simps split: if_splits)
  ultimately show "sqs_shape rt event"
    using js_map_sqsRecord_iff [of "sub event ''Records''" rt]
    by (auto simp: sqs_shape_def)
next
  assume "sqs_shape rt event"
  then obtain r0 rest snsData where R: "js_get event ''Records'' = Some (JArr (r0 # rest))"
    and NN: "list_all non_nullish (r0 # rest)"
    and ARN: "is_string (sub r0 ''eventSourceARN'')"
    and SNS: "getSNSTrigger rt (JArr (r0 # rest)) = Some snsData"
    and PR: "printable (if truthy (sub r0 ''body'') then sub r0 ''body'' else JStr ''{}'')"
    by (rule sqs_shape_records)
  from createSQSTrigger_annotations [OF R NN ARN SNS PR, of trigger]
  show "\<exists>t. createSQSTrigger rt event trigger = Some t" by blast
qed

lemma callFactory_iff:
  assumes "tag \<in> set enumeration"
  shows "(\<exists>t. callFactory tag rt event trigger context = Some t) \<longleftrightarrow>
         extractor_shape tag rt event context"
proof -
  note defs = callFactory_def resourceTypeToFactoryMap_def extractor_shape_def
  from assms have
    "tag = ''json'' \<or> tag = ''s3'' \<or> tag = ''kinesis'' \<or> tag = ''events'' \<or>
     tag = ''sns'' \<or> tag = ''sqs'' \<or> tag = ''api_gateway'' \<or>
     tag = ''api_gateway_no_proxy'' \<or> tag = ''api_gateway_websocket'' \<or>
     tag = ''api_gateway_http2'' \<or> tag = ''dynamodb'' \<or>
     tag = ''elastic_load_balancer'' \<or> tag = ''cognito''"
    unfolding enumeration_def by simp
  then show ?thesis
  proof (elim disjE)
    assume "tag = ''json''" then show ?thesis by (simp add: defs json_iff)
  next
    assume "tag = ''s3''" then show ?thesis by (simp add: defs s3_iff)
  next
    assume "tag = ''kinesis''" then show ?thesis by (simp add: defs kinesis_iff)
  next
    assume "tag = ''events''" then show ?thesis by (simp add: defs events_iff)
  next
    assume "tag = ''sns''" then show ?thesis by (simp add: defs sns_iff)
  next
    assume "tag = ''sqs''" then show ?thesis by (simp add: defs sqs_iff)
  next
    assume "tag = ''api_gateway''" then show ?thesis by (simp add: defs api_gateway_iff)
  next
    assume "tag = ''api_gateway_no_proxy''"
    then show ?thesis by (simp add: defs api_gateway_no_proxy_iff)
  next
    assume "tag = ''api_gateway_websocket''"
    then show ?thesis by (simp add: defs api_gateway_websocket_iff)
  next
    assume "tag = ''api_gateway_http2''"
    then show ?thesis by (simp add: defs api_gateway_http2_iff)
  next
    assume "tag = ''dynamodb''" then show ?thesis by (simp add: defs dynamodb_iff)
  next
    assume "tag = ''elastic_load_balancer''"
    then show ?thesis by (simp add: defs elastic_load_balancer_iff)
  next
    assume "tag = ''cognito''" then show ?thesis by (simp add: defs cognito_iff)
  qed
qed

lemma itemHash_item_annotation:
  assumes "createDynamoDBTrigger rt event trigger = Some t"
  shows "\<exists>r h. js_path event [''Records'', ''0''] = Some r \<and> itemHash rt r = Some h \<and>
               annotations t ''item_hash'' = Some h"
  using assms
  by (auto simp: createDynamoDBTrigger_def bind_eq_Some_conv annotations_addToMetadata
        simp del: js_path.simps)

lemma sqs_sample_facts:
  "js_get (payload_sqs body) ''Records'' = Some (JArr [sample_sqs_record body])"
  "list_all non_nullish [sample_sqs_record body]"
  "is_string (sub (sample_sqs_record body) ''eventSourceARN'')"
  "getSNSTrigger sample_runtime (JArr [sample_sqs_record body]) = Some JNull"
  "JStr ''hello'' = (if truthy (sub (sample_sqs_record ''hello'') ''body'')
                    then sub (sample_sqs_record ''hello'') ''body'' else JStr ''{}'')"
  "js_to_string sample_runtime (JStr body) = Some body"
  by (simp_all add: payload_sqs_def sample_sqs_record_def non_nullish_def sub_def sample_runtime_def)

lemma sqs_sample_body:
  "JStr sample_body = (if truthy (sub (sample_sqs_record sample_body) ''body'')
                       then sub (sample_sqs_record sample_body) ''body'' else JStr ''{}'')"
  by (simp add: sample_sqs_record_def sub_def sample_body_def)

lemma sqs_sample_shape:
  "sqs_shape sample_runtime (payload_sqs body)"
  "sqs_shape metadata_only_runtime (payload_sqs body)"
  by (simp_all add: sqs_shape_def payload_sqs_def sample_sqs_record_def non_nullish_def sub_def
        sample_runtime_def metadata_only_runtime_def array_index_def is_digit_def)

lemma dynamodb_sample_facts:
  "AWS sample_runtime = Some Some"
  "AWS no_sdk_runtime = None"
  "js_get (sample_dynamodb_record name img) ''eventName'' = Some (JStr name)"
  "js_path (sample_dynamodb_record name img) [''dynamodb'', ''Keys''] = Some (JObj [(''id'', JStr ''42'')])"
  "js_path (sample_dynamodb_record name img) [''dynamodb'', ''NewImage''] = Some img"
  "JStr ''INSERT'' \<noteq> JStr ''REMOVE''"
  "same_item item_a item_a_reordered"
  by (simp_all add: sample_runtime_def no_sdk_runtime_def sample_dynamodb_record_def
        item_a_def item_a_reordered_def insert_commute)

lemma dynamodb_sample_shape: "dynamodb_shape sample_runtime payload_dynamodb"
  by (simp add: dynamodb_shape_def payload_dynamodb_def sample_dynamodb_record_def item_a_def
        sample_runtime_def non_nullish_def sub_def array_index_def is_digit_def)

section \<open>The claims\<close>

subsection \<open>C1\<close>




subsection \<open>C2\<close>

text \<open>
  C2, as amended. For a payload that the classifier gives a tag of the enumeration,
  \<open>createFromEvent\<close> runs the registered extractor to completion exactly when the payload
  has the shape that extractor relies on: every nested value it dereferences is there
  (neither \<open>null\<close> nor \<open>undefined\<close>), every value it calls \<open>split\<close> or \<open>replace\<close> on is
  a string, every value it puts into a template literal has a conversion to a string (it
  is not an object with an own \<open>toString\<close> property, nor an array that holds one), and
  the outside functions it calls return. On any other payload of that tag the extractor
  throws, and the exception leaves \<open>createFromEvent\<close>.
\<close>

theorem extractor_completes_iff_shape:
  assumes "triggerService event = Some tag" and "tag \<in> set enumeration"
  shows "(\<exists>t. createFromEvent rt event context = Some t) \<longleftrightarrow>
         extractor_shape tag rt event context"
  using callFactory_iff [OF assms(2), of rt event new_trigger "context"] assms(1)
  by (auto simp: createFromEvent_def bind_eq_Some_conv)

theorem extractor_completes_iff_shape_witness:
  "triggerService payload_s3 = Some ''s3'' \<and> ''s3'' \<in> set enumeration \<and>
   extractor_shape ''s3'' sample_runtime payload_s3 sample_context \<and>
   (\<exists>t. createFromEvent sample_runtime payload_s3 sample_context = Some t)"
proof -
  have tag: "triggerService payload_s3 = Some ''s3''"
    by (simp add: payload_s3_def triggerService_def recordsService_def pop_def
          array_index_def is_digit_def)
  have enum: "''s3'' \<in> set enumeration"
    by (simp add: enumeration_def)
  have shape: "extractor_shape ''s3'' sample_runtime payload_s3 sample_context"
    by (simp add: extractor_shape_def s3_shape_def payload_s3_def non_nullish_def sub_def
          array_index_def is_digit_def)
  from extractor_completes_iff_shape [OF tag enum, of sample_runtime sample_context]
  show ?thesis using tag enum shape by blast
qed

theorem extractor_throws_on_partial_s3:
  "triggerService payload_s3_partial = Some ''s3'' \<and>
   createS3Trigger sample_runtime payload_s3_partial new_trigger = None \<and>
   createFromEvent sample_runtime payload_s3_partial sample_context = None"
proof -
  have tag: "triggerService payload_s3_partial = Some ''s3''"
    by (simp add: payload_s3_partial_def triggerService_def recordsService_def pop_def
          array_index_def is_digit_def)
  have s3: "createS3Trigger sample_runtime payload_s3_partial new_trigger = None"
    by (simp add: createS3Trigger_def payload_s3_partial_def js_path.simps
          array_index_def is_digit_def)
  have "callFactory ''s3'' sample_runtime payload_s3_partial new_trigger sample_context = None"
    using s3 by (simp add: callFactory_def resourceTypeToFactoryMap_def)
  with tag s3 show ?thesis by (simp add: createFromEvent_def)
qed

subsection \<open>C3\<close>

text \<open>
  C3, as amended. Whenever the classifier returns, the tag is a member of the closed
  enumeration, or it is the substring after the last colon of \<open>Records[0].eventSource\<close>
  or of \<open>Records[0].EventSource\<close>, or the substring after the last dot of a truthy
  \<open>source\<close>: any string at all. The registry has an own entry exactly for the tags of
  the enumeration, so for a derived tag outside the enumeration the lookup finds no
  registered extractor, and unless the tag names a callable member inherited from
  \<open>Object.prototype\<close>, \<open>createFromEvent\<close> throws.
\<close>

theorem tag_in_enumeration_or_derived:
  assumes "triggerService event = Some tag"
  shows "(tag \<in> set enumeration \<or>
          has event ''Records'' \<and> has (first_record event) ''eventSource'' \<and>
            tag = last_segment CHR '':'' (sub (first_record event) ''eventSource'') \<or>
          has event ''Records'' \<and> has (first_record event) ''EventSource'' \<and>
            tag = last_segment CHR '':'' (sub (first_record event) ''EventSource'') \<or>
          \<not> has event ''Records'' \<and> has event ''source'' \<and> truthy (sub event ''source'') \<and>
            tag = last_segment CHR ''.'' (sub event ''source'')) \<and>
         (map_of resourceTypeToFactoryMap tag \<noteq> None) = (tag \<in> set enumeration) \<and>
         (tag \<notin> set enumeration \<and> tag \<notin> set inheritedCallable \<longrightarrow>
            createFromEvent rt event context = None)"
proof -
  have tag: "tag = first_match amended_chain event"
    using assms by (rule triggerService_chain)
  have enum: "first_match later_predicates event \<in> set enumeration"
    by (rule later_predicates_enumeration)
  have "''json'' \<in> set enumeration" "''events'' \<in> set enumeration"
    by (simp_all add: enumeration_def)
  with tag enum have first: "tag \<in> set enumeration \<or>
          has event ''Records'' \<and> has (first_record event) ''eventSource'' \<and>
            tag = last_segment CHR '':'' (sub (first_record event) ''eventSource'') \<or>
          has event ''Records'' \<and> has (first_record event) ''EventSource'' \<and>
            tag = last_segment CHR '':'' (sub (first_record event) ''EventSource'') \<or>
          \<not> has event ''Records'' \<and> has event ''source'' \<and> truthy (sub event ''source'') \<and>
            tag = last_segment CHR ''.'' (sub event ''source'')"
    unfolding amended_chain_def by (auto split: if_splits)
  have third: "tag \<notin> set enumeration \<and> tag \<notin> set inheritedCallable \<longrightarrow>
            createFromEvent rt event context = None"
    using registry_domain [of tag] assms
    by (auto simp: createFromEvent_def callFactory_def)
  from first registry_domain third show ?thesis by blast
qed

theorem tag_in_enumeration_or_derived_witness:
  "triggerService payload_source_detail_type = Some ''ec2'' \<and>
   has payload_source_detail_type ''source'' \<and>
   ''ec2'' = last_segment CHR ''.'' (sub payload_source_detail_type ''source'') \<and>
   ''ec2'' \<notin> set enumeration \<and>
   createFromEvent sample_runtime payload_source_detail_type sample_context = None"
proof -
  have tag: "triggerService payload_source_detail_type = Some ''ec2''"
    by (simp add: payload_source_detail_type_def triggerService_def otherService_def
          andM_def pop_def)
  have rest: "has payload_source_detail_type ''source'' \<and>
     ''ec2'' = last_segment CHR ''.'' (sub payload_source_detail_type ''source'') \<and>
     ''ec2'' \<notin> set enumeration \<and> ''ec2'' \<notin> set inheritedCallable"
    by (simp add: payload_source_detail_type_def has_def sub_def last_segment_def pop_def
          enumeration_def inheritedCallable_def)
  from tag_in_enumeration_or_derived [OF tag, of sample_runtime sample_context]
  show ?thesis using tag rest by blast
qed

theorem tag_outside_enumeration:
  "triggerService payload_unknown_source = Some ''foo'' \<and>
   ''foo'' \<notin> set enumeration \<and>
   map_of resourceTypeToFactoryMap ''foo'' = None \<and>
   createFromEvent sample_runtime payload_unknown_source sample_context = None"
proof -
  have tag: "triggerService payload_unknown_source = Some ''foo''"
    by (simp add: payload_unknown_source_def triggerService_def otherService_def
          andM_def pop_def)
  have enum: "''foo'' \<notin> set enumeration"
    by (simp add: enumeration_def)
  have reg: "map_of resourceTypeToFactoryMap ''foo'' = None"
    by (simp add: resourceTypeToFactoryMap_def)
  have "callFactory ''foo'' sample_runtime payload_unknown_source new_trigger sample_context = None"
    by (simp add: callFactory_def reg inheritedCallable_def)
  with tag enum reg show ?thesis by (simp add: createFromEvent_def)
qed

subsection \<open>C4\<close>

text \<open>
  C4, as amended. Whenever the classifier returns, its tag is the one that the first
  matching predicate of this ordered chain gives: (1) \<open>Records[0]\<close> carries
  \<open>eventSource\<close>: the substring after its last colon; (2) \<open>Records[0]\<close> carries
  \<open>EventSource\<close>: the substring after its last colon; (3) the payload has a \<open>Records\<close>
  property: \<open>json\<close>, and no later predicate is consulted; (4) \<open>source\<close>, \<open>detail-type\<close>
  and \<open>detail\<close>: \<open>events\<close>; (5) a truthy \<open>source\<close>: the substring after its last dot;
  then predicates 5 to 12 of section 4.1 in their order.
\<close>

theorem classification_first_match:
  assumes "triggerService event = Some tag"
  shows "tag = first_match amended_chain event"
  using assms by (rule triggerService_chain)

theorem classification_first_match_witness:
  "triggerService payload_two_sources = Some ''s3'' \<and>
   ''s3'' = first_match amended_chain payload_two_sources"
proof -
  have h: "triggerService payload_two_sources = Some ''s3''"
    by (simp add: payload_two_sources_def triggerService_def recordsService_def pop_def
          array_index_def is_digit_def)
  from classification_first_match [OF h] show ?thesis using h by blast
qed

theorem classification_departs_from_spec_chain:
  "triggerService payload_two_sources = Some ''s3'' \<and>
   first_match spec_chain payload_two_sources = ''sns'' \<and>
   triggerService payload_records_http = Some ''json'' \<and>
   first_match spec_chain payload_records_http = ''api_gateway'' \<and>
   triggerService payload_source_detail_type = Some ''ec2'' \<and>
   first_match spec_chain payload_source_detail_type = ''json''"
proof -
  have "triggerService payload_two_sources = Some ''s3''"
    and "triggerService payload_records_http = Some ''json''"
    by (simp_all add: payload_two_sources_def payload_records_http_def triggerService_def
          recordsService_def pop_def array_index_def is_digit_def)
  moreover have "triggerService payload_source_detail_type = Some ''ec2''"
    by (simp add: payload_source_detail_type_def triggerService_def otherService_def
          andM_def pop_def)
  moreover have "first_match spec_chain payload_two_sources = ''sns''"
    by (simp add: payload_two_sources_def spec_chain_def has_def first_record_def sub_def
          last_segment_def pop_def array_index_def is_digit_def)
  moreover have "first_match spec_chain payload_records_http = ''api_gateway''"
    by (simp add: payload_records_http_def spec_chain_def later_predicates_def has_def
          first_record_def sub_def array_index_def is_digit_def)
  moreover have "first_match spec_chain payload_source_detail_type = ''json''"
    by (simp add: payload_source_detail_type_def spec_chain_def later_predicates_def has_def
          first_record_def sub_def)
  ultimately show ?thesis by blast
qed

subsection \<open>C5\<close>

text \<open>
  C5, as amended. A payload that contains both \<open>requestContext.elb\<close> and \<open>httpMethod\<close>,
  that has no \<open>Records\<close> property at all, that does not have \<open>source\<close>, \<open>detail-type\<close>
  and \<open>detail\<close> together, and that has no \<open>source\<close> property with a truthy value, is
  classified as \<open>elastic_load_balancer\<close>, not \<open>api_gateway\<close>. To match none of
  predicates 1 to 4 of section 4.1 is not enough: a payload with a \<open>Records\<close> property
  whose first element has no source field is \<open>json\<close>, and a payload with \<open>source\<close> and
  \<open>detail-type\<close> but no \<open>detail\<close> gets the tag derived from \<open>source\<close>, whatever
  else they contain.
\<close>

theorem elb_precedes_api_gateway:
  assumes "\<not> has event ''Records''"
      and "\<not> (has event ''source'' \<and> has event ''detail-type'' \<and> has event ''detail'')"
      and "\<not> (has event ''source'' \<and> truthy (sub event ''source''))"
      and "has (sub event ''requestContext'') ''elb''"
      and "has event ''httpMethod''"
  shows "triggerService event = Some ''elastic_load_balancer''"
proof -
  from assms(4) have ev: "is_object event"
    by (auto dest: has_sub_parent)
  have c1: "(has event ''source'' \<and> has event ''detail-type'' \<and> has event ''detail'') = False"
    using assms(2) by simp
  have c2: "(has event ''source'' \<and> truthy (sub event ''source'')) = False"
    using assms(3) by simp
  have "truthy event" using ev by (cases event) auto
  moreover have "otherService event = Some ''elastic_load_balancer''"
    unfolding otherService_def events_test [OF ev] source_test [OF ev] elb_test [OF assms(4)] c1 c2
    by simp
  ultimately show ?thesis
    using assms(1) by (simp add: triggerService_def js_in_object [OF ev])
qed

theorem elb_precedes_api_gateway_witness:
  "\<not> has payload_elb ''Records'' \<and>
   \<not> (has payload_elb ''source'' \<and> has payload_elb ''detail-type'' \<and> has payload_elb ''detail'') \<and>
   \<not> (has payload_elb ''source'' \<and> truthy (sub payload_elb ''source'')) \<and>
   has (sub payload_elb ''requestContext'') ''elb'' \<and>
   has payload_elb ''httpMethod'' \<and>
   triggerService payload_elb = Some ''elastic_load_balancer''"
proof -
  have h1: "\<not> has payload_elb ''Records''"
    and h2: "\<not> (has payload_elb ''source'' \<and> has payload_elb ''detail-type'' \<and>
                has payload_elb ''detail'')"
    and h3: "\<not> (has payload_elb ''source'' \<and> truthy (sub payload_elb ''source''))"
    and h4: "has (sub payload_elb ''requestContext'') ''elb''"
    and h5: "has payload_elb ''httpMethod''"
    by (simp_all add: payload_elb_def has_def sub_def)
  from elb_precedes_api_gateway [OF h1 h2 h3 h4 h5]
  show ?thesis using h1 h2 h3 h4 h5 by blast
qed

theorem elb_payload_caught_by_earlier_branch:
  "\<not> (has payload_records_elb ''Records'' \<and>
      has (first_record payload_records_elb) ''EventSource'') \<and>
   \<not> (has payload_records_elb ''Records'' \<and>
      has (first_record payload_records_elb) ''eventSource'') \<and>
   \<not> (has payload_records_elb ''source'' \<and> has payload_records_elb ''detail-type'' \<and>
      has payload_records_elb ''detail'') \<and>
   \<not> (has payload_records_elb ''source'' \<and> \<not> has payload_records_elb ''detail-type'') \<and>
   has (sub payload_records_elb ''requestContext'') ''elb'' \<and>
   has payload_records_elb ''httpMethod'' \<and>
   triggerService payload_records_elb = Some ''json'' \<and>
   \<not> (has payload_source_elb ''Records'' \<and>
      has (first_record payload_source_elb) ''EventSource'') \<and>
   \<not> (has payload_source_elb ''Records'' \<and>
      has (first_record payload_source_elb) ''eventSource'') \<and>
   \<not> (has payload_source_elb ''source'' \<and> has payload_source_elb ''detail-type'' \<and>
      has payload_source_elb ''detail'') \<and>
   \<not> (has payload_source_elb ''source'' \<and> \<not> has payload_source_elb ''detail-type'') \<and>
   has (sub payload_source_elb ''requestContext'') ''elb'' \<and>
   has payload_source_elb ''httpMethod'' \<and>
   triggerService payload_source_elb = Some ''ec2''"
proof -
  have "triggerService payload_records_elb = Some ''json''"
    by (simp add: payload_records_elb_def triggerService_def recordsService_def
          array_index_def is_digit_def)
  moreover have "triggerService payload_source_elb = Some ''ec2''"
    by (simp add: payload_source_elb_def triggerService_def otherService_def andM_def pop_def)
  moreover have
    "\<not> (has payload_records_elb ''Records'' \<and>
        has (first_record payload_records_elb) ''EventSource'')"
    "\<not> (has payload_records_elb ''Records'' \<and>
        has (first_record payload_records_elb) ''eventSource'')"
    "\<not> (has payload_records_elb ''source'' \<and> has payload_records_elb ''detail-type'' \<and>
        has payload_records_elb ''detail'')"
    "\<not> (has payload_records_elb ''source'' \<and> \<not> has payload_records_elb ''detail-type'')"
    "has (sub payload_records_elb ''requestContext'') ''elb''"
    "has payload_records_elb ''httpMethod''"
    by (simp_all add: payload_records_elb_def has_def sub_def first_record_def
          array_index_def is_digit_def)
  moreover have
    "\<not> (has payload_source_elb ''Records'' \<and>
        has (first_record payload_source_elb) ''EventSource'')"
    "\<not> (has payload_source_elb ''Records'' \<and>
        has (first_record payload_source_elb) ''eventSource'')"
    "\<not> (has payload_source_elb ''source'' \<and> has payload_source_elb ''detail-type'' \<and>
        has payload_source_elb ''detail'')"
    "\<not> (has payload_source_elb ''source'' \<and> \<not> has payload_source_elb ''detail-type'')"
    "has (sub payload_source_elb ''requestContext'') ''elb''"
    "has payload_source_elb ''httpMethod''"
    by (simp_all add: payload_source_elb_def has_def sub_def first_record_def)
  ultimately show ?thesis by (intro conjI)
qed

subsection \<open>C6\<close>

text \<open>
  C6. The empty object and \<open>null\<close> are both classified as \<open>json\<close>, and for a context
  that has a function name \<open>createFromEvent\<close> returns the trigger of the json extractor:
  type \<open>json\<close>, operation \<open>Event\<close>, name \<open>trigger-\<close> followed by the function name.
  The function name is any value with a conversion to a string, and what follows
  \<open>trigger-\<close> is that conversion: for a string, the string itself.
\<close>

theorem fallback_json_trigger:
  assumes "js_get context ''functionName'' = Some functionName"
      and "js_to_string rt functionName = Some name"
  shows "triggerService (JObj []) = Some ''json'' \<and>
         triggerService JNull = Some ''json'' \<and>
         (\<exists>t. createFromEvent rt (JObj []) context = Some t \<and>
              resource_type t = ''json'' \<and>
              resource_operation t = JStr ''Event'' \<and>
              resource_name t = JStr (''trigger-'' @ name)) \<and>
         (\<exists>t. createFromEvent rt JNull context = Some t \<and>
              resource_type t = ''json'' \<and>
              resource_operation t = JStr ''Event'' \<and>
              resource_name t = JStr (''trigger-'' @ name))"
  using assms
  by (simp add: createFromEvent_def triggerService_empty_object triggerService_null
        callFactory_json createJSONTrigger_def fillCommonFields_def addToMetadata_def)

theorem fallback_json_trigger_witness:
  "js_get sample_context ''functionName'' = Some (JStr ''resize'') \<and>
   js_to_string sample_runtime (JStr ''resize'') = Some ''resize'' \<and>
   (\<exists>t. createFromEvent sample_runtime (JObj []) sample_context = Some t \<and>
        resource_type t = ''json'' \<and>
        resource_operation t = JStr ''Event'' \<and>
        resource_name t = JStr ''trigger-resize'') \<and>
   (\<exists>t. createFromEvent sample_runtime JNull sample_context = Some t \<and>
        resource_type t = ''json'' \<and>
        resource_operation t = JStr ''Event'' \<and>
        resource_name t = JStr ''trigger-resize'')"
proof -
  have h: "js_get sample_context ''functionName'' = Some (JStr ''resize'')"
    by (simp add: sample_context_def)
  have n: "js_to_string sample_runtime (JStr ''resize'') = Some ''resize''"
    by simp
  from fallback_json_trigger [OF h n] show ?thesis
    using h n by simp
qed

subsection \<open>C7\<close>

text \<open>
  C7, as amended. For an SQS payload whose \<open>Records\<close> is a list of records that can be
  read, whose first record has a string \<open>eventSourceARN\<close>, on which \<open>getSNSTrigger\<close>
  returns, and whose first body has a conversion to a string (as every string has, being
  its own conversion), the extractor completes, and the record list and
  \<open>total_record_count\<close> are attached whatever the body is. If the text of the body parses
  as JSON and the parsed value has an \<open>input.Epsagon\<close> sub-object, the annotation
  \<open>steps_dict\<close> is that sub-object; if the text is not valid JSON, no \<open>steps_dict\<close> is
  attached (the annotation is what it was in the trigger handed to the extractor). A body
  that has no conversion to a string is not covered: on it \<open>JSON.parse\<close> throws inside the
  \<open>try\<close>, the handler throws again when it builds its message, and the extractor does not
  complete.
\<close>

theorem sqs_steps_dict:
  assumes "js_get event ''Records'' = Some (JArr (r0 # rest))"
      and "list_all non_nullish (r0 # rest)"
      and "is_string (sub r0 ''eventSourceARN'')"
      and "getSNSTrigger rt (JArr (r0 # rest)) = Some snsData"
      and "body = (if truthy (sub r0 ''body'') then sub r0 ''body'' else JStr ''{}'')"
      and "js_to_string rt body = Some bodyText"
  shows "\<exists>t. createSQSTrigger rt event trigger = Some t \<and>
           annotations t ''record'' =
             Some (JArr (map (\<lambda>r. if metadataOnly rt then metadata_entry r else full_entry rt r)
                             (r0 # rest))) \<and>
           annotations t ''total_record_count'' = Some (JNum (int (length (r0 # rest)))) \<and>
           (\<forall>messageBody steps.
              JSON_parse rt bodyText = Some messageBody \<longrightarrow>
              js_path messageBody [''input'', ''Epsagon''] = Some (JObj steps) \<longrightarrow>
              annotations t ''steps_dict'' = Some (JObj steps)) \<and>
           (JSON_parse rt bodyText = None \<longrightarrow>
              annotations t ''steps_dict'' = annotations trigger ''steps_dict'')"
proof -
  from assms(6) have "printable body"
    using js_to_string_Some_iff by blast
  then have PR: "printable (if truthy (sub r0 ''body'') then sub r0 ''body'' else JStr ''{}'')"
    unfolding assms(5) .
  from createSQSTrigger_annotations [OF assms(1-4) PR, of trigger]
  obtain t t1 t2 where run: "createSQSTrigger rt event trigger = Some t"
    and rec: "annotations t ''record'' =
       Some (JArr (map (\<lambda>r. if metadataOnly rt then metadata_entry r else full_entry rt r)
                       (r0 # rest)))"
    and cnt: "annotations t ''total_record_count'' = Some (JNum (int (length (r0 # rest))))"
    and t2: "sqsTryStepsDict rt t1 body = Some t2"
    and steps: "annotations t ''steps_dict'' = annotations t2 ''steps_dict''"
    and steps1: "annotations t1 ''steps_dict'' = annotations trigger ''steps_dict''"
    unfolding assms(5) by blast
  have parsed: "\<And>messageBody steps.
      JSON_parse rt bodyText = Some messageBody \<Longrightarrow>
      js_path messageBody [''input'', ''Epsagon''] = Some (JObj steps) \<Longrightarrow>
      annotations t ''steps_dict'' = Some (JObj steps)"
  proof -
    fix messageBody steps
    assume "JSON_parse rt bodyText = Some messageBody"
       and "js_path messageBody [''input'', ''Epsagon''] = Some (JObj steps)"
    from sqsTryStepsDict_parsed [OF assms(6) this, of t1] t2
    have "t2 = addToMetadata rt t1 [(''steps_dict'', JObj steps)] []" by simp
    then show "annotations t ''steps_dict'' = Some (JObj steps)"
      unfolding steps by (simp add: annotations_addToMetadata)
  qed
  have unparsed: "JSON_parse rt bodyText = None \<Longrightarrow>
      annotations t ''steps_dict'' = annotations trigger ''steps_dict''"
  proof -
    assume "JSON_parse rt bodyText = None"
    from sqsTryStepsDict_unparsed [OF assms(6) this, of t1] t2 have "t2 = t1" by simp
    then show "annotations t ''steps_dict'' = annotations trigger ''steps_dict''"
      unfolding steps by (simp add: steps1)
  qed
  show ?thesis
  proof (intro exI [of _ t] conjI allI impI)
    fix messageBody steps
    assume "JSON_parse rt bodyText = Some messageBody"
       and "js_path messageBody [''input'', ''Epsagon''] = Some (JObj steps)"
    then show "annotations t ''steps_dict'' = Some (JObj steps)" by (rule parsed)
  next
    assume "JSON_parse rt bodyText = None"
    then show "annotations t ''steps_dict'' = annotations trigger ''steps_dict''"
      by (rule unparsed)
  qed (fact run rec cnt)+
qed

theorem sqs_steps_dict_witness:
  "(\<exists>t. createSQSTrigger sample_runtime (payload_sqs sample_body) new_trigger = Some t \<and>
        annotations t ''total_record_count'' = Some (JNum 1) \<and>
        annotations t ''steps_dict'' = Some (JObj [(''x'', JNum 1)])) \<and>
   (\<exists>t. createSQSTrigger sample_runtime (payload_sqs ''hello'') new_trigger = Some t \<and>
        annotations t ''total_record_count'' = Some (JNum 1) \<and>
        annotations t ''steps_dict'' = None)"
proof
  have parse: "JSON_parse sample_runtime sample_body =
               Some (JObj [(''input'', JObj [(''Epsagon'', JObj [(''x'', JNum 1)])])])"
    by (simp add: sample_runtime_def)
  have path: "js_path (JObj [(''input'', JObj [(''Epsagon'', JObj [(''x'', JNum 1)])])])
                [''input'', ''Epsagon''] = Some (JObj [(''x'', JNum 1)])"
    by simp
  note inst = sqs_steps_dict [OF sqs_sample_facts(1-4) sqs_sample_body sqs_sample_facts(6),
                              of new_trigger]
  from inst obtain t where t:
    "createSQSTrigger sample_runtime (payload_sqs sample_body) new_trigger = Some t \<and>
     annotations t ''record'' =
       Some (JArr (map (\<lambda>r. if metadataOnly sample_runtime then metadata_entry r
                             else full_entry sample_runtime r) [sample_sqs_record sample_body])) \<and>
     annotations t ''total_record_count'' = Some (JNum (int (length [sample_sqs_record sample_body]))) \<and>
     (\<forall>messageBody steps.
        JSON_parse sample_runtime sample_body = Some messageBody \<longrightarrow>
        js_path messageBody [''input'', ''Epsagon''] = Some (JObj steps) \<longrightarrow>
        annotations t ''steps_dict'' = Some (JObj steps)) \<and>
     (JSON_parse sample_runtime sample_body = None \<longrightarrow>
        annotations t ''steps_dict'' = annotations new_trigger ''steps_dict'')" ..
  from t have run: "createSQSTrigger sample_runtime (payload_sqs sample_body) new_trigger = Some t"
    by (rule conjunct1)
  from t have cnt: "annotations t ''total_record_count'' = Some (JNum 1)"
    by simp
  from t [THEN conjunct2, THEN conjunct2, THEN conjunct2, THEN conjunct1] parse path
  have steps: "annotations t ''steps_dict'' = Some (JObj [(''x'', JNum 1)])"
    by (elim allE impE) assumption+
  from run cnt steps
  show "\<exists>t. createSQSTrigger sample_runtime (payload_sqs sample_body) new_trigger = Some t \<and>
        annotations t ''total_record_count'' = Some (JNum 1) \<and>
        annotations t ''steps_dict'' = Some (JObj [(''x'', JNum 1)])"
    by (intro exI [of _ t] conjI)
next
  have parse: "JSON_parse sample_runtime ''hello'' = None"
    by (simp add: sample_runtime_def sample_body_def)
  note inst = sqs_steps_dict [OF sqs_sample_facts, of new_trigger]
  from inst obtain t where t:
    "createSQSTrigger sample_runtime (payload_sqs ''hello'') new_trigger = Some t \<and>
     annotations t ''record'' =
       Some (JArr (map (\<lambda>r. if metadataOnly sample_runtime then metadata_entry r
                             else full_entry sample_runtime r) [sample_sqs_record ''hello''])) \<and>
     annotations t ''total_record_count'' = Some (JNum (int (length [sample_sqs_record ''hello'']))) \<and>
     (\<forall>messageBody steps.
        JSON_parse sample_runtime ''hello'' = Some messageBody \<longrightarrow>
        js_path messageBody [''input'', ''Epsagon''] = Some (JObj steps) \<longrightarrow>
        annotations t ''steps_dict'' = Some (JObj steps)) \<and>
     (JSON_parse sample_runtime ''hello'' = None \<longrightarrow>
        annotations t ''steps_dict'' = annotations new_trigger ''steps_dict'')" ..
  from t have run: "createSQSTrigger sample_runtime (payload_sqs ''hello'') new_trigger = Some t"
    by (rule conjunct1)
  from t have cnt: "annotations t ''total_record_count'' = Some (JNum 1)"
    by simp
  from t [THEN conjunct2, THEN conjunct2, THEN conjunct2, THEN conjunct2] parse
  have "annotations t ''steps_dict'' = annotations new_trigger ''steps_dict''"
    by (rule mp)
  then have steps: "annotations t ''steps_dict'' = None"
    by (simp add: new_trigger_def)
  from run cnt steps
  show "\<exists>t. createSQSTrigger sample_runtime (payload_sqs ''hello'') new_trigger = Some t \<and>
        annotations t ''total_record_count'' = Some (JNum 1) \<and>
        annotations t ''steps_dict'' = None"
    by (intro exI [of _ t] conjI)
qed

theorem sqs_throws_on_body_without_conversion:
  "triggerService payload_sqs_object_body = Some ''sqs'' \<and>
   js_path payload_sqs_object_body [''Records'', ''0'', ''body''] = Some object_body \<and>
   truthy object_body \<and>
   js_to_string sample_runtime object_body = None \<and>
   sqsStepsDict sample_runtime new_trigger object_body = None \<and>
   sqsTryStepsDict sample_runtime new_trigger object_body = None \<and>
   createSQSTrigger sample_runtime payload_sqs_object_body new_trigger = None \<and>
   createFromEvent sample_runtime payload_sqs_object_body sample_context = None"
proof -
  have tag: "triggerService payload_sqs_object_body = Some ''sqs''"
    by (simp add: payload_sqs_object_body_def triggerService_def recordsService_def pop_def
          array_index_def is_digit_def)
  have body: "js_path payload_sqs_object_body [''Records'', ''0'', ''body''] = Some object_body"
    by (simp add: payload_sqs_object_body_def array_index_def is_digit_def)
  have tr: "truthy object_body" by (simp add: object_body_def)
  have str: "js_to_string sample_runtime object_body = None"
    by (simp add: object_body_def)
  have steps: "sqsStepsDict sample_runtime new_trigger object_body = None"
    by (simp add: sqsStepsDict_def str)
  have handler: "\<And>t. sqsTryStepsDict sample_runtime t object_body = None"
    by (simp add: sqsTryStepsDict_def sqsStepsDict_def template_def str)
  have "\<not> printable (at_path payload_sqs_object_body [''Records'', ''0'', ''body''])"
    by (simp add: payload_sqs_object_body_def object_body_def sub_def array_index_def
          is_digit_def)
  then have "\<not> sqs_shape sample_runtime payload_sqs_object_body"
    by (simp add: sqs_shape_def)
  then have sqs: "createSQSTrigger sample_runtime payload_sqs_object_body new_trigger = None"
    using sqs_iff [of sample_runtime payload_sqs_object_body new_trigger] by auto
  then have "callFactory ''sqs'' sample_runtime payload_sqs_object_body new_trigger
               sample_context = None"
    by (simp add: callFactory_def resourceTypeToFactoryMap_def)
  with tag have all: "createFromEvent sample_runtime payload_sqs_object_body sample_context = None"
    by (simp add: createFromEvent_def)
  from tag body tr str steps handler [of new_trigger] sqs all show ?thesis by (intro conjI)
qed

subsection \<open>C8\<close>

text \<open>
  C8. The item hash of the DynamoDB extractor: (a) for a record whose \<open>eventName\<close> is
  \<open>REMOVE\<close> it is the hash of the decoded \<open>Keys\<close>, so two such records with the same
  keys have the same hash whatever their new images are; (b) for any other event name
  it is the hash of the decoded \<open>NewImage\<close>; (c) two logically equal decoded items whose
  keys are in different orders have the same hash; (d) without the SDK the hash is the
  empty string and nothing is thrown. The annotation \<open>item_hash\<close> of the trigger is
  this hash.
\<close>

theorem dynamodb_item_hash:
  "(\<forall>unmarshall. AWS rt = Some unmarshall \<longrightarrow>
       js_get record ''eventName'' = Some (JStr ''REMOVE'') \<longrightarrow>
       itemHash rt record =
         do { keys \<leftarrow> js_path record [''dynamodb'', ''Keys''];
              item \<leftarrow> unmarshall keys;
              md5_call rt (JSON_sortify rt item) }) \<and>
   (js_get record ''eventName'' = Some (JStr ''REMOVE'') \<longrightarrow>
    js_get record' ''eventName'' = Some (JStr ''REMOVE'') \<longrightarrow>
    js_path record [''dynamodb'', ''Keys''] = js_path record' [''dynamodb'', ''Keys''] \<longrightarrow>
    itemHash rt record = itemHash rt record') \<and>
   (\<forall>unmarshall eventName. AWS rt = Some unmarshall \<longrightarrow>
       js_get record ''eventName'' = Some eventName \<longrightarrow>
       eventName \<noteq> JStr ''REMOVE'' \<longrightarrow>
       itemHash rt record =
         do { newImage \<leftarrow> js_path record [''dynamodb'', ''NewImage''];
              item \<leftarrow> unmarshall newImage;
              md5_call rt (JSON_sortify rt item) }) \<and>
   (same_item item item' \<longrightarrow>
      md5_call rt (JSON_sortify rt item) = md5_call rt (JSON_sortify rt item')) \<and>
   (AWS rt = None \<longrightarrow> itemHash rt record = Some (JStr [])) \<and>
   (\<forall>t. createDynamoDBTrigger rt event trigger = Some t \<longrightarrow>
        (\<exists>r h. js_path event [''Records'', ''0''] = Some r \<and> itemHash rt r = Some h \<and>
               annotations t ''item_hash'' = Some h))"
proof (intro conjI allI impI)
  fix unmarshall
  assume "AWS rt = Some unmarshall" "js_get record ''eventName'' = Some (JStr ''REMOVE'')"
  then show "itemHash rt record =
         do { keys \<leftarrow> js_path record [''dynamodb'', ''Keys''];
              item \<leftarrow> unmarshall keys;
              md5_call rt (JSON_sortify rt item) }"
    by (simp add: itemHash_def del: js_path.simps)
next
  assume "js_get record ''eventName'' = Some (JStr ''REMOVE'')"
     and "js_get record' ''eventName'' = Some (JStr ''REMOVE'')"
     and "js_path record [''dynamodb'', ''Keys''] = js_path record' [''dynamodb'', ''Keys'']"
  then show "itemHash rt record = itemHash rt record'"
    by (simp add: itemHash_def del: js_path.simps split: option.splits)
next
  fix unmarshall eventName
  assume "AWS rt = Some unmarshall" "js_get record ''eventName'' = Some eventName"
         "eventName \<noteq> JStr ''REMOVE''"
  then show "itemHash rt record =
         do { newImage \<leftarrow> js_path record [''dynamodb'', ''NewImage''];
              item \<leftarrow> unmarshall newImage;
              md5_call rt (JSON_sortify rt item) }"
    by (simp add: itemHash_def del: js_path.simps)
next
  assume "same_item item item'"
  then have "canon item = canon item'" by (rule same_item_canon)
  then show "md5_call rt (JSON_sortify rt item) = md5_call rt (JSON_sortify rt item')"
    by (simp add: JSON_sortify_def)
next
  assume "AWS rt = None"
  then show "itemHash rt record = Some (JStr [])" by (simp add: itemHash_def)
next
  fix t assume "createDynamoDBTrigger rt event trigger = Some t"
  then show "\<exists>r h. js_path event [''Records'', ''0''] = Some r \<and> itemHash rt r = Some h \<and>
               annotations t ''item_hash'' = Some h"
    by (rule itemHash_item_annotation)
qed

theorem dynamodb_item_hash_witness:
  "itemHash sample_runtime (sample_dynamodb_record ''REMOVE'' item_a) =
     md5_call sample_runtime (JSON_sortify sample_runtime (JObj [(''id'', JStr ''42'')])) \<and>
   itemHash sample_runtime (sample_dynamodb_record ''REMOVE'' item_a) =
     itemHash sample_runtime (sample_dynamodb_record ''REMOVE'' item_b) \<and>
   itemHash sample_runtime (sample_dynamodb_record ''INSERT'' item_a) =
     md5_call sample_runtime (JSON_sortify sample_runtime item_a) \<and>
   same_item item_a item_a_reordered \<and>
   md5_call sample_runtime (JSON_sortify sample_runtime item_a) =
     md5_call sample_runtime (JSON_sortify sample_runtime item_a_reordered) \<and>
   md5_call sample_runtime (JSON_sortify sample_runtime item_a_reordered) =
     Some (JStr ''{\"id\":\"42\",\"qty\":3}'') \<and>
   itemHash no_sdk_runtime (sample_dynamodb_record ''INSERT'' item_a) = Some (JStr []) \<and>
   (\<exists>t r h. createDynamoDBTrigger sample_runtime payload_dynamodb new_trigger = Some t \<and>
            js_path payload_dynamodb [''Records'', ''0''] = Some r \<and>
            itemHash sample_runtime r = Some h \<and>
            annotations t ''item_hash'' = Some h)"
proof -
  note removal =
    dynamodb_item_hash [of sample_runtime "sample_dynamodb_record ''REMOVE'' item_a"
       "sample_dynamodb_record ''REMOVE'' item_b" item_a item_a_reordered payload_dynamodb new_trigger]
  note insert =
    dynamodb_item_hash [of sample_runtime "sample_dynamodb_record ''INSERT'' item_a"
       "sample_dynamodb_record ''REMOVE'' item_b" item_a item_a_reordered payload_dynamodb new_trigger]
  note no_sdk =
    dynamodb_item_hash [of no_sdk_runtime "sample_dynamodb_record ''INSERT'' item_a"
       "sample_dynamodb_record ''REMOVE'' item_b" item_a item_a_reordered payload_dynamodb new_trigger]
  have keys: "js_path (sample_dynamodb_record ''REMOVE'' item_a) [''dynamodb'', ''Keys''] =
              js_path (sample_dynamodb_record ''REMOVE'' item_b) [''dynamodb'', ''Keys'']"
    by (simp only: dynamodb_sample_facts(4))
  have a: "itemHash sample_runtime (sample_dynamodb_record ''REMOVE'' item_a) =
     md5_call sample_runtime (JSON_sortify sample_runtime (JObj [(''id'', JStr ''42'')]))"
    using removal [THEN conjunct1, THEN spec, THEN mp, THEN mp,
            OF dynamodb_sample_facts(1) dynamodb_sample_facts(3)]
    by (simp add: dynamodb_sample_facts(4) del: js_path.simps)
  note a' = removal [THEN conjunct2, THEN conjunct1, THEN mp, THEN mp, THEN mp,
            OF dynamodb_sample_facts(3) dynamodb_sample_facts(3) keys]
  have b: "itemHash sample_runtime (sample_dynamodb_record ''INSERT'' item_a) =
     md5_call sample_runtime (JSON_sortify sample_runtime item_a)"
    using insert [THEN conjunct2, THEN conjunct2, THEN conjunct1, THEN spec, THEN spec,
            THEN mp, THEN mp, THEN mp,
            OF dynamodb_sample_facts(1) dynamodb_sample_facts(3) dynamodb_sample_facts(6)]
    by (simp add: dynamodb_sample_facts(5) del: js_path.simps)
  note c = removal [THEN conjunct2, THEN conjunct2, THEN conjunct2, THEN conjunct1, THEN mp,
            OF dynamodb_sample_facts(7)]
  note d = no_sdk [THEN conjunct2, THEN conjunct2, THEN conjunct2, THEN conjunct2,
            THEN conjunct1, THEN mp, OF dynamodb_sample_facts(2)]
  from dynamodb_sample_shape
  obtain t where run: "createDynamoDBTrigger sample_runtime payload_dynamodb new_trigger = Some t"
    using dynamodb_iff [of sample_runtime payload_dynamodb new_trigger] by blast
  note e = removal [THEN conjunct2, THEN conjunct2, THEN conjunct2, THEN conjunct2,
            THEN conjunct2, THEN spec, THEN mp, OF run]
  then have e': "\<exists>t r h. createDynamoDBTrigger sample_runtime payload_dynamodb new_trigger = Some t \<and>
            js_path payload_dynamodb [''Records'', ''0''] = Some r \<and>
            itemHash sample_runtime r = Some h \<and>
            annotations t ''item_hash'' = Some h"
    using run by (elim exE conjE, intro exI conjI)
  have hashed: "md5_call sample_runtime (JSON_sortify sample_runtime item_a_reordered) =
                Some (JStr ''{\"id\":\"42\",\"qty\":3}'')"
    by code_simp
  from a a' b dynamodb_sample_facts(7) c hashed d e' show ?thesis by (intro conjI)
qed

subsection \<open>C9\<close>

text \<open>
  C9. Whenever the SQS extractor completes, the annotation \<open>record\<close> is the list of one
  entry per record of \<open>Records\<close>, in order. With \<open>metadataOnly\<close> false an entry has
  \<open>MD5 Of Message Body\<close>, \<open>Message ID\<close>, \<open>Message Body\<close> (the body, or \<open>{}\<close> for a
  falsy body, truncated at 1024), \<open>Attributes\<close> and \<open>Message Attributes\<close>; with
  \<open>metadataOnly\<close> true it has \<open>MD5 Of Message Body\<close> and \<open>Message ID\<close> and nothing
  else. Truncation at 1024 leaves a string of at most 1024 units as it is and cuts a
  longer one to its first 1024 units followed by the marker.
\<close>

theorem sqs_record_list:
  assumes "createSQSTrigger rt event trigger = Some t"
  shows "(\<exists>rs. js_get event ''Records'' = Some (JArr rs) \<and>
              (\<not> metadataOnly rt \<longrightarrow>
                 annotations t ''record'' = Some (JArr (map (full_entry rt) rs))) \<and>
              (metadataOnly rt \<longrightarrow>
                 annotations t ''record'' = Some (JArr (map metadata_entry rs)))) \<and>
         (\<forall>s. truncateMessage rt (JStr s) 1024 =
                JStr (if 1024 < length s then take 1024 s @ truncation_marker rt else s))"
proof -
  from assms have "sqs_shape rt event" using sqs_iff by blast
  then obtain r0 rest snsData where R: "js_get event ''Records'' = Some (JArr (r0 # rest))"
    and NN: "list_all non_nullish (r0 # rest)"
    and ARN: "is_string (sub r0 ''eventSourceARN'')"
    and SNS: "getSNSTrigger rt (JArr (r0 # rest)) = Some snsData"
    and PR: "printable (if truthy (sub r0 ''body'') then sub r0 ''body'' else JStr ''{}'')"
    by (rule sqs_shape_records)
  from createSQSTrigger_annotations [OF R NN ARN SNS PR, of trigger]
  obtain t' where "createSQSTrigger rt event trigger = Some t'"
    and "annotations t' ''record'' =
       Some (JArr (map (\<lambda>r. if metadataOnly rt then metadata_entry r else full_entry rt r)
                       (r0 # rest)))"
    by blast
  with assms have rec: "annotations t ''record'' =
       Some (JArr (map (\<lambda>r. if metadataOnly rt then metadata_entry r else full_entry rt r)
                       (r0 # rest)))"
    by simp
  have "\<exists>rs. js_get event ''Records'' = Some (JArr rs) \<and>
              (\<not> metadataOnly rt \<longrightarrow>
                 annotations t ''record'' = Some (JArr (map (full_entry rt) rs))) \<and>
              (metadataOnly rt \<longrightarrow>
                 annotations t ''record'' = Some (JArr (map metadata_entry rs)))"
  proof (intro exI [of _ "r0 # rest"] conjI impI)
    show "js_get event ''Records'' = Some (JArr (r0 # rest))" by (rule R)
  next
    assume "\<not> metadataOnly rt"
    then show "annotations t ''record'' = Some (JArr (map (full_entry rt) (r0 # rest)))"
      unfolding rec by simp
  next
    assume "metadataOnly rt"
    then show "annotations t ''record'' = Some (JArr (map metadata_entry (r0 # rest)))"
      unfolding rec by simp
  qed
  moreover have "\<forall>s. truncateMessage rt (JStr s) 1024 =
                JStr (if 1024 < length s then take 1024 s @ truncation_marker rt else s)"
    by (simp add: truncateMessage_def)
  ultimately show ?thesis by blast
qed

theorem sqs_record_list_witness:
  "(\<exists>t. createSQSTrigger sample_runtime (payload_sqs ''hello'') new_trigger = Some t \<and>
        annotations t ''record'' =
          Some (JArr [JObj [(''MD5 Of Message Body'', JStr ''e4e68fb7''),
                            (''Message ID'', JStr ''19dd0b57''),
                            (''Message Body'', JStr ''hello''),
                            (''Attributes'', JObj [(''SenderId'', JStr ''AIDA'')]),
                            (''Message Attributes'', JObj [])]])) \<and>
   (\<exists>t. createSQSTrigger metadata_only_runtime (payload_sqs ''hello'') new_trigger = Some t \<and>
        annotations t ''record'' =
          Some (JArr [JObj [(''MD5 Of Message Body'', JStr ''e4e68fb7''),
                            (''Message ID'', JStr ''19dd0b57'')]])) \<and>
   truncateMessage sample_runtime (JStr (replicate 2000 CHR ''a'')) 1024 =
     JStr (replicate 1024 CHR ''a'' @ ''...'')"
proof (intro conjI)
  have recs: "js_get (payload_sqs ''hello'') ''Records'' = Some (JArr [sample_sqs_record ''hello''])"
    by (simp add: payload_sqs_def)
  from sqs_sample_shape(1) [of "''hello''"]
  obtain t where run: "createSQSTrigger sample_runtime (payload_sqs ''hello'') new_trigger = Some t"
    using sqs_iff [of sample_runtime "payload_sqs ''hello''" new_trigger] by blast
  have off: "\<not> metadataOnly sample_runtime" by (simp add: sample_runtime_def)
  from sqs_record_list [OF run] recs off
  have "annotations t ''record'' =
          Some (JArr (map (full_entry sample_runtime) [sample_sqs_record ''hello'']))"
    by auto
  then have "annotations t ''record'' =
          Some (JArr [JObj [(''MD5 Of Message Body'', JStr ''e4e68fb7''),
                            (''Message ID'', JStr ''19dd0b57''),
                            (''Message Body'', JStr ''hello''),
                            (''Attributes'', JObj [(''SenderId'', JStr ''AIDA'')]),
                            (''Message Attributes'', JObj [])]])"
    by (simp add: full_entry_def sample_sqs_record_def sub_def truncateMessage_def)
  with run
  show "\<exists>t. createSQSTrigger sample_runtime (payload_sqs ''hello'') new_trigger = Some t \<and>
        annotations t ''record'' =
          Some (JArr [JObj [(''MD5 Of Message Body'', JStr ''e4e68fb7''),
                            (''Message ID'', JStr ''19dd0b57''),
                            (''Message Body'', JStr ''hello''),
                            (''Attributes'', JObj [(''SenderId'', JStr ''AIDA'')]),
                            (''Message Attributes'', JObj [])]])"
    by (intro exI [of _ t] conjI)
next
  have recs: "js_get (payload_sqs ''hello'') ''Records'' = Some (JArr [sample_sqs_record ''hello''])"
    by (simp add: payload_sqs_def)
  from sqs_sample_shape(2) [of "''hello''"]
  obtain t where run:
    "createSQSTrigger metadata_only_runtime (payload_sqs ''hello'') new_trigger = Some t"
    using sqs_iff [of metadata_only_runtime "payload_sqs ''hello''" new_trigger] by blast
  have on: "metadataOnly metadata_only_runtime" by (simp add: metadata_only_runtime_def)
  from sqs_record_list [OF run] recs on
  have "annotations t ''record'' = Some (JArr (map metadata_entry [sample_sqs_record ''hello'']))"
    by auto
  then have "annotations t ''record'' =
          Some (JArr [JObj [(''MD5 Of Message Body'', JStr ''e4e68fb7''),
                            (''Message ID'', JStr ''19dd0b57'')]])"
    by (simp add: metadata_entry_def sample_sqs_record_def sub_def)
  with run
  show "\<exists>t. createSQSTrigger metadata_only_runtime (payload_sqs ''hello'') new_trigger = Some t \<and>
        annotations t ''record'' =
          Some (JArr [JObj [(''MD5 Of Message Body'', JStr ''e4e68fb7''),
                            (''Message ID'', JStr ''19dd0b57'')]])"
    by (intro exI [of _ t] conjI)
next
  have run: "createSQSTrigger sample_runtime (payload_sqs ''hello'') new_trigger \<noteq> None"
    using sqs_sample_shape(1) [of "''hello''"]
          sqs_iff [of sample_runtime "payload_sqs ''hello''" new_trigger] by auto
  then obtain t where "createSQSTrigger sample_runtime (payload_sqs ''hello'') new_trigger = Some t"
    by auto
  from sqs_record_list [OF this]
  have "truncateMessage sample_runtime (JStr (replicate 2000 CHR ''a'')) 1024 =
        JStr (if 1024 < length (replicate 2000 CHR ''a'')
              then take 1024 (replicate 2000 CHR ''a'') @ truncation_marker sample_runtime
              else replicate 2000 CHR ''a'')"
    by (elim conjE allE)
  then show "truncateMessage sample_runtime (JStr (replicate 2000 CHR ''a'')) 1024 =
     JStr (replicate 1024 CHR ''a'' @ ''...'')"
    by (simp add: sample_runtime_def)
qed

subsection \<open>C10\<close>

text \<open>
  C10. The tag depends on the payload only: two calls of \<open>createFromEvent\<close> on the same
  payload that both return, with any two contexts (and any two environments), set the
  same \<open>resource.type\<close>, which is the tag the classifier gives the payload. For a tag
  other than \<open>json\<close> the context changes nothing at all, and for \<open>json\<close> two triggers
  built in the same environment differ in the resource name at most.
\<close>

theorem tag_independent_of_context:
  "(\<forall>t1 t2. createFromEvent rt1 event context1 = Some t1 \<longrightarrow>
            createFromEvent rt2 event context2 = Some t2 \<longrightarrow>
            triggerService event = Some (resource_type t1) \<and>
            resource_type t2 = resource_type t1) \<and>
   (triggerService event \<noteq> Some ''json'' \<longrightarrow>
      createFromEvent rt event context1 = createFromEvent rt event context2) \<and>
   (\<forall>t1 t2. createFromEvent rt event context1 = Some t1 \<longrightarrow>
            createFromEvent rt event context2 = Some t2 \<longrightarrow>
            t1\<lparr>resource_name := resource_name t2\<rparr> = t2)"
proof (intro conjI allI impI)
  fix t1 t2
  assume a: "createFromEvent rt1 event context1 = Some t1"
     and b: "createFromEvent rt2 event context2 = Some t2"
  from a show "triggerService event = Some (resource_type t1)"
    by (rule createFromEvent_type)
  with createFromEvent_type [OF b] show "resource_type t2 = resource_type t1" by simp
next
  assume nj: "triggerService event \<noteq> Some ''json''"
  show "createFromEvent rt event context1 = createFromEvent rt event context2"
  proof (cases "triggerService event")
    case None
    then show ?thesis by (simp add: createFromEvent_def)
  next
    case (Some tag)
    with nj have "tag \<noteq> ''json''" by simp
    from callFactory_context [OF this, of rt event new_trigger context1 context2] Some
    show ?thesis by (simp add: createFromEvent_def)
  qed
next
  fix t1 t2
  assume "createFromEvent rt event context1 = Some t1"
     and "createFromEvent rt event context2 = Some t2"
  then show "t1\<lparr>resource_name := resource_name t2\<rparr> = t2"
    by (rule createFromEvent_name_only)
qed

theorem tag_independent_of_context_witness:
  "(\<exists>t1 t2. createFromEvent sample_runtime (JObj []) sample_context = Some t1 \<and>
            createFromEvent metadata_only_runtime (JObj []) other_context = Some t2 \<and>
            triggerService (JObj []) = Some (resource_type t1) \<and>
            resource_type t2 = resource_type t1) \<and>
   triggerService payload_elb \<noteq> Some ''json'' \<and>
   createFromEvent sample_runtime payload_elb sample_context =
     createFromEvent sample_runtime payload_elb other_context \<and>
   (\<exists>t1 t2. createFromEvent sample_runtime (JObj []) sample_context = Some t1 \<and>
            createFromEvent sample_runtime (JObj []) other_context = Some t2 \<and>
            resource_name t1 = JStr ''trigger-resize'' \<and>
            resource_name t2 = JStr ''trigger-thumbnail'' \<and>
            t1\<lparr>resource_name := resource_name t2\<rparr> = t2)"
proof -
  obtain t1 where t1: "createFromEvent sample_runtime (JObj []) sample_context = Some t1"
    and n1: "resource_name t1 = JStr ''trigger-resize''"
    by (simp add: createFromEvent_def triggerService_empty_object callFactory_json
          createJSONTrigger_def sample_context_def fillCommonFields_def addToMetadata_def)
  obtain t2 where t2: "createFromEvent sample_runtime (JObj []) other_context = Some t2"
    and n2: "resource_name t2 = JStr ''trigger-thumbnail''"
    by (simp add: createFromEvent_def triggerService_empty_object callFactory_json
          createJSONTrigger_def other_context_def fillCommonFields_def addToMetadata_def)
  obtain t3 where t3: "createFromEvent metadata_only_runtime (JObj []) other_context = Some t3"
    by (simp add: createFromEvent_def triggerService_empty_object callFactory_json
          createJSONTrigger_def other_context_def)
  have elb: "triggerService payload_elb \<noteq> Some ''json''"
    by (simp add: payload_elb_def triggerService_def otherService_def andM_def)
  note a = tag_independent_of_context
             [of sample_runtime "JObj []" sample_context metadata_only_runtime other_context
                 sample_runtime]
  note b = tag_independent_of_context
             [of sample_runtime payload_elb sample_context sample_runtime other_context
                 sample_runtime]
  note first = a [THEN conjunct1, THEN spec, THEN spec, THEN mp, THEN mp, OF t1 t3]
  note second = b [THEN conjunct2, THEN conjunct1, THEN mp, OF elb]
  note third = a [THEN conjunct2, THEN conjunct2, THEN spec, THEN spec, THEN mp, THEN mp, OF t1 t2]
  have one: "\<exists>t1 t2. createFromEvent sample_runtime (JObj []) sample_context = Some t1 \<and>
            createFromEvent metadata_only_runtime (JObj []) other_context = Some t2 \<and>
            triggerService (JObj []) = Some (resource_type t1) \<and>
            resource_type t2 = resource_type t1"
    using t1 t3 first by (intro exI [of _ t1] exI [of _ t3]) simp
  have three: "\<exists>t1 t2. createFromEvent sample_runtime (JObj []) sample_context = Some t1 \<and>
            createFromEvent sample_runtime (JObj []) other_context = Some t2 \<and>
            resource_name t1 = JStr ''trigger-resize'' \<and>
            resource_name t2 = JStr ''trigger-thumbnail'' \<and>
            t1\<lparr>resource_name := resource_name t2\<rparr> = t2"
    using t1 t2 n1 n2 third by (intro exI [of _ t1] exI [of _ t2]) simp
  from one elb second three show ?thesis by (intro conjI)
qed

end
